theory Spec2Isabelle
  imports Main "HOL-Library.Sublist"
begin

section \<open>JavaScript values and the built-ins the handlers use\<close>

text \<open>
  The handlers of \<^verbatim>\<open>src/server.js\<close> and \<^verbatim>\<open>src/nodejs-backend.js\<close> read parsed JSON
  returned by two upstream providers. A payload is a value of \<open>jsval\<close>: the JSON values,
  \<open>undefined\<close> (what reading a missing property yields) and function objects (which
  only appear as properties inherited from \<open>Object.prototype\<close>). An object is the list
  of its properties; the first binding of a key is its value. Numbers are integers: the
  handlers only test them for truthiness and pass them on. A string is the list of its
  UTF-16 code units; the characters modelled are U+0000 to U+00FF, the type \<open>char\<close>
  read as Latin-1, each of them one code unit, so \<open>length\<close> is the \<^verbatim>\<open>length\<close> of
  the string. The built-ins below are those of the language on these characters.
\<close>

datatype jsval =
    JUndefined
  | JNull
  | JBool bool
  | JNum int
  | JStr string
  | JArr "jsval list"
  | JObj "(string \<times> jsval) list"
  | JFun string

text \<open>
  An exception raised inside a handler's \<^verbatim>\<open>try\<close> block: a \<open>TypeError\<close> of the
  language (reading a property of \<open>null\<close> or \<open>undefined\<close>, calling a method a value
  does not have, iterating a value that is not iterable), or the rejection of
  \<^verbatim>\<open>axios.get\<close>, which carries a message and, when the provider answered with a
  status outside 2xx, the response's status and parsed body.
\<close>

datatype js_error =
    TypeError
  | AxiosError string "(int \<times> jsval) option"

text \<open>\<^verbatim>\<open>error.message\<close>. The engine's wording of a TypeError is not modelled: a fixed
  text stands for it, and the statements below say of such a message only that there is
  one.\<close>

fun error_message :: "js_error \<Rightarrow> string" where
  "error_message TypeError = ''TypeError''"
| "error_message (AxiosError msg r) = msg"

text \<open>\<^verbatim>\<open>error.response\<close>: present only on an axios rejection with a response.\<close>

fun error_response :: "js_error \<Rightarrow> (int \<times> jsval) option" where
  "error_response TypeError = None"
| "error_response (AxiosError msg r) = r"

text \<open>Sequencing of computations that may throw: the first exception wins.\<close>

definition and_then :: "js_error + 'a \<Rightarrow> ('a \<Rightarrow> js_error + 'b) \<Rightarrow> js_error + 'b" where
  "and_then r f = (case r of Inl e \<Rightarrow> Inl e | Inr v \<Rightarrow> f v)"

text \<open>Truthiness, as \<^verbatim>\<open>if (v)\<close>, \<^verbatim>\<open>!v\<close>, \<^verbatim>\<open>a && b\<close> and \<^verbatim>\<open>a || b\<close> test it.\<close>

fun truthy :: "jsval \<Rightarrow> bool" where
  "truthy JUndefined = False"
| "truthy JNull = False"
| "truthy (JBool b) = b"
| "truthy (JNum n) = (n \<noteq> 0)"
| "truthy (JStr s) = (s \<noteq> [])"
| "truthy (JArr xs) = True"
| "truthy (JObj kvs) = True"
| "truthy (JFun f) = True"

text \<open>\<^verbatim>\<open>a || b\<close> on values whose evaluation cannot throw.\<close>

definition js_or :: "jsval \<Rightarrow> jsval \<Rightarrow> jsval" where
  "js_or a b = (if truthy a then a else b)"

text \<open>
  \<^verbatim>\<open>v.k\<close> and \<^verbatim>\<open>v['k']\<close> for the property names the handlers read (none of them is a
  built-in property of strings, numbers, booleans or arrays, nor inherited from
  \<open>Object.prototype\<close>): a TypeError on \<open>null\<close> and \<open>undefined\<close>, the property's value
  on an object that has it, \<open>undefined\<close> otherwise.
\<close>

fun get_prop :: "jsval \<Rightarrow> string \<Rightarrow> js_error + jsval" where
  "get_prop JUndefined k = Inl TypeError"
| "get_prop JNull k = Inl TypeError"
| "get_prop (JObj kvs) k = Inr (case map_of kvs k of Some v \<Rightarrow> v | None \<Rightarrow> JUndefined)"
| "get_prop v k = Inr JUndefined"

text \<open>\<^verbatim>\<open>v?.k\<close>: \<open>undefined\<close> on \<open>null\<close> and \<open>undefined\<close>, never an exception.\<close>

definition opt_prop :: "jsval \<Rightarrow> string \<Rightarrow> jsval" where
  "opt_prop v k = (case get_prop v k of Inl e \<Rightarrow> JUndefined | Inr x \<Rightarrow> x)"

subsection \<open>Strings\<close>

text \<open>
  \<^verbatim>\<open>toLowerCase\<close>: the letters A-Z and U+00C0 to U+00DE (all but the sign U+00D7) move
  up by 32; every other character up to U+00FF is its own lower case.
\<close>

definition is_upper_code :: "nat \<Rightarrow> bool" where
  "is_upper_code n = ((65 \<le> n \<and> n \<le> 90) \<or> (192 \<le> n \<and> n \<le> 222 \<and> n \<noteq> 215))"

definition toLowerChar :: "char \<Rightarrow> char" where
  "toLowerChar c =
     (let n = (of_char c :: nat) in if is_upper_code n then char_of (n + 32) else c)"

definition toLowerCase :: "string \<Rightarrow> string" where
  "toLowerCase s = map toLowerChar s"

text \<open>
  \<^verbatim>\<open>toUpperCase\<close>: the letters a-z and U+00E0 to U+00FE (all but the sign U+00F7) move
  down by 32, and U+00DF becomes \<^verbatim>\<open>SS\<close>. The upper-case forms of U+00B5 and U+00FF lie
  beyond U+00FF; these two characters are left as they are, and no statement below is
  about them.
\<close>

definition is_lower_code :: "nat \<Rightarrow> bool" where
  "is_lower_code n = ((97 \<le> n \<and> n \<le> 122) \<or> (224 \<le> n \<and> n \<le> 254 \<and> n \<noteq> 247))"

definition toUpperChars :: "char \<Rightarrow> string" where
  "toUpperChars c =
     (let n = (of_char c :: nat)
      in if is_lower_code n then [char_of (n - 32)]
         else if n = 223 then ''SS''
         else [c])"

definition toUpperCase :: "string \<Rightarrow> string" where
  "toUpperCase s = concat (map toUpperChars s)"

text \<open>The white space and line terminators that \<^verbatim>\<open>trim\<close> strips, among the characters
  up to U+00FF: tab, line feed, vertical tab, form feed, carriage return, space and the
  no-break space U+00A0.\<close>

definition is_space :: "char \<Rightarrow> bool" where
  "is_space c =
     (c \<in> set [CHR 0x09, CHR 0x0A, CHR 0x0B, CHR 0x0C, CHR 0x0D, CHR '' '', CHR 0xA0])"

definition trim :: "string \<Rightarrow> string" where
  "trim s = rev (dropWhile is_space (rev (dropWhile is_space s)))"

text \<open>\<^verbatim>\<open>s.includes(t)\<close> on strings: \<open>t\<close> occurs in \<open>s\<close> as a contiguous run.\<close>

fun str_includes :: "string \<Rightarrow> string \<Rightarrow> bool" where
  "str_includes [] t = (t = [])"
| "str_includes (c # s) t = (prefix t (c # s) \<or> str_includes s t)"

text \<open>\<^verbatim>\<open>s.split('T')[0]\<close>: the part of \<open>s\<close> before its first \<open>T\<close>.\<close>

definition split_T_first :: "string \<Rightarrow> string" where
  "split_T_first s = takeWhile (\<lambda>c. c \<noteq> CHR ''T'') s"

text \<open>\<^verbatim>\<open>v.toLowerCase()\<close>: strings only have the method.\<close>

fun js_toLowerCase :: "jsval \<Rightarrow> js_error + string" where
  "js_toLowerCase (JStr s) = Inr (toLowerCase s)"
| "js_toLowerCase v = Inl TypeError"

text \<open>\<^verbatim>\<open>v.includes(t)\<close> for a string \<open>t\<close>: substring search on a string, membership
  on an array, no such method on anything else.\<close>

fun js_includes :: "jsval \<Rightarrow> string \<Rightarrow> js_error + bool" where
  "js_includes (JStr s) t = Inr (str_includes s t)"
| "js_includes (JArr xs) t = Inr (JStr t \<in> set xs)"
| "js_includes v t = Inl TypeError"

text \<open>\<^verbatim>\<open>v.split('T')[0]\<close>: strings only have the method.\<close>

fun js_split_T_first :: "jsval \<Rightarrow> js_error + jsval" where
  "js_split_T_first (JStr s) = Inr (JStr (split_T_first s))"
| "js_split_T_first v = Inl TypeError"

text \<open>\<^verbatim>\<open>v.length\<close> where it is a number: on strings and arrays.\<close>

fun js_length :: "jsval \<Rightarrow> nat option" where
  "js_length (JStr s) = Some (length s)"
| "js_length (JArr xs) = Some (length xs)"
| "js_length v = None"

text \<open>The values a \<^verbatim>\<open>for (const x of v)\<close> loop visits: the elements of an array, the
  characters of a string; anything else in a payload is not iterable.\<close>

fun js_iterate :: "jsval \<Rightarrow> js_error + jsval list" where
  "js_iterate (JArr xs) = Inr xs"
| "js_iterate (JStr s) = Inr (map (\<lambda>c. JStr [c]) s)"
| "js_iterate v = Inl TypeError"

text \<open>\<^verbatim>\<open>Array.prototype.filter\<close> and \<^verbatim>\<open>map\<close> with a callback that may throw: the
  elements are visited in order and the first exception ends the call.\<close>

fun js_filter :: "(jsval \<Rightarrow> js_error + bool) \<Rightarrow> jsval list \<Rightarrow> js_error + jsval list" where
  "js_filter p [] = Inr []"
| "js_filter p (x # xs) =
     and_then (p x) (\<lambda>b. and_then (js_filter p xs) (\<lambda>ys. Inr (if b then x # ys else ys)))"

fun js_map :: "(jsval \<Rightarrow> js_error + jsval) \<Rightarrow> jsval list \<Rightarrow> js_error + jsval list" where
  "js_map f [] = Inr []"
| "js_map f (x # xs) =
     and_then (f x) (\<lambda>y. and_then (js_map f xs) (\<lambda>ys. Inr (y # ys)))"

text \<open>
  The decimal numeral of a number, and \<open>ToString\<close>, which a template literal and
  \<^verbatim>\<open>encodeURIComponent\<close> apply to their argument. An object of a payload prints as
  \<^verbatim>\<open>[object Object]\<close> unless it has a property \<open>toString\<close> of its own: that one is no
  function, and the conversion raises a TypeError. An array joins its elements with
  commas, \<open>null\<close> and \<open>undefined\<close> printing as nothing.
\<close>

function nat_to_string :: "nat \<Rightarrow> string" where
  "nat_to_string n =
     (if n < 10 then [''0123456789'' ! n]
      else nat_to_string (n div 10) @ [''0123456789'' ! (n mod 10)])"
  by pat_completeness auto
termination
  by (relation "measure id") auto

definition int_to_string :: "int \<Rightarrow> string" where
  "int_to_string i = (if i < 0 then CHR ''-'' # nat_to_string (nat (- i)) else nat_to_string (nat i))"

fun join_comma :: "string list \<Rightarrow> string" where
  "join_comma [] = []"
| "join_comma [s] = s"
| "join_comma (s # t # ss) = s @ '','' @ join_comma (t # ss)"

fun sequence :: "(js_error + 'a) list \<Rightarrow> js_error + 'a list" where
  "sequence [] = Inr []"
| "sequence (r # rs) = and_then r (\<lambda>x. and_then (sequence rs) (\<lambda>xs. Inr (x # xs)))"

fun to_string :: "jsval \<Rightarrow> js_error + string" where
  "to_string JUndefined = Inr ''undefined''"
| "to_string JNull = Inr ''null''"
| "to_string (JBool b) = Inr (if b then ''true'' else ''false'')"
| "to_string (JNum n) = Inr (int_to_string n)"
| "to_string (JStr s) = Inr s"
| "to_string (JArr xs) =
     and_then
       (sequence (map (\<lambda>x. if x = JUndefined \<or> x = JNull then Inr [] else to_string x) xs))
       (\<lambda>ss. Inr (join_comma ss))"
| "to_string (JObj kvs) =
     (if map_of kvs ''toString'' = None then Inr ''[object Object]'' else Inl TypeError)"
| "to_string (JFun f) = Inr (''function '' @ f @ ''() { [native code] }'')"

text \<open>\<^verbatim>\<open>encodeURIComponent\<close>: every character but the letters A-Z and a-z, the digits and
  \<^verbatim>\<open>- _ . ! ~ * ' ( )\<close> becomes its UTF-8 bytes (one below U+0080, two from there to
  U+00FF), each written as \<open>%\<close> and two upper-case hexadecimal digits.\<close>

definition uri_unreserved :: "char \<Rightarrow> bool" where
  "uri_unreserved c =
     (c \<in> set (''ABCDEFGHIJKLMNOPQRSTUVWXYZabcdefghijklmnopqrstuvwxyz0123456789-_.!~*()'' @ [CHR 0x27]))"

definition hex_byte :: "nat \<Rightarrow> string" where
  "hex_byte b = [CHR ''%'', ''0123456789ABCDEF'' ! (b div 16), ''0123456789ABCDEF'' ! (b mod 16)]"

definition percent_encode :: "char \<Rightarrow> string" where
  "percent_encode c =
     (let n = (of_char c :: nat)
      in if n < 128 then hex_byte n
         else hex_byte (192 + n div 64) @ hex_byte (128 + n mod 64))"

definition encodeURIComponent :: "string \<Rightarrow> string" where
  "encodeURIComponent s = concat (map (\<lambda>c. if uri_unreserved c then [c] else percent_encode c) s)"

section \<open>Requests, upstream outcomes and responses\<close>

text \<open>
  Each handler awaits one \<^verbatim>\<open>axios.get(url, {params, timeout})\<close> as the first statement
  of its \<^verbatim>\<open>try\<close> block. The call either resolves with a response whose \<open>data\<close> is the
  parsed body, or rejects (a status outside 2xx, a timeout, a network failure). The
  provider is a function from the request to that outcome; a handler returns what it
  passes to \<^verbatim>\<open>res.status(...).json(...)\<close> (status 200 when \<^verbatim>\<open>res.json\<close> is called alone)
  together with the requests it sent. What \<^verbatim>\<open>console.log\<close> prints is not modelled;
  where the template literal of a log line converts a value of the payload to a string,
  that conversion is, since it can raise.
\<close>

datatype request = AxiosGet string "(string \<times> jsval) list"

datatype upstream = Resolved jsval | Rejected js_error

record response =
  status :: int
  body :: jsval

record config =
  NEWS_API_KEY :: string
  ALPHA_VANTAGE_KEY :: string

text \<open>The \<^verbatim>\<open>try\<close>/\<^verbatim>\<open>catch\<close> of a handler: the awaited call, then the rest of the block
  on its data; any exception of either goes to the handler's \<^verbatim>\<open>catch\<close>.\<close>

definition try_catch ::
  "upstream \<Rightarrow> (jsval \<Rightarrow> js_error + response) \<Rightarrow> (js_error \<Rightarrow> response) \<Rightarrow> response" where
  "try_catch outcome block handler =
     (case outcome of
        Rejected e \<Rightarrow> handler e
      | Resolved data \<Rightarrow> (case block data of Inl e \<Rightarrow> handler e | Inr r \<Rightarrow> r))"

section \<open>GET /api/company-news/:companyName\<close>

text \<open>The callback of \<^verbatim>\<open>articles.filter\<close> (server.js lines 62-67), evaluated left to
  right with the short circuit of \<^verbatim>\<open>&&\<close>.\<close>

definition keep_article :: "jsval \<Rightarrow> js_error + bool" where
  "keep_article article =
     and_then (get_prop article ''title'') (\<lambda>title.
       if \<not> truthy title then Inr False
       else and_then (get_prop article ''source'') (\<lambda>source.
         if \<not> truthy (opt_prop source ''name'') then Inr False
         else if title = JStr ''[Removed]'' then Inr False
         else and_then (js_toLowerCase title) (\<lambda>low.
           Inr (\<not> str_includes low ''removed''))))"

text \<open>The callback of \<^verbatim>\<open>.map\<close> (lines 69-76). \<open>now\<close> is what
  \<^verbatim>\<open>new Date().toISOString()\<close> returns at that moment.\<close>

definition format_article :: "string \<Rightarrow> jsval \<Rightarrow> js_error + jsval" where
  "format_article now article =
     and_then (get_prop article ''title'') (\<lambda>title.
     and_then (get_prop article ''source'') (\<lambda>source.
     and_then (get_prop source ''name'') (\<lambda>name.
     and_then (get_prop article ''publishedAt'') (\<lambda>publishedAt.
     and_then (if truthy publishedAt then js_split_T_first publishedAt
               else Inr (JStr (split_T_first now))) (\<lambda>date.
     and_then (get_prop article ''description'') (\<lambda>description.
     and_then (get_prop article ''url'') (\<lambda>url.
     and_then (get_prop article ''urlToImage'') (\<lambda>urlToImage.
       Inr (JObj [(''title'', title),
                  (''source'', name),
                  (''date'', date),
                  (''summary'', js_or description (JStr ''No summary available'')),
                  (''url'', url),
                  (''imageUrl'', urlToImage)])))))))))"

text \<open>\<^verbatim>\<open>articles.filter(...).slice(0, 8)\<close>: the articles kept, which \<^verbatim>\<open>.map\<close> then
  formats. Only an array has \<^verbatim>\<open>filter\<close>.\<close>

definition keptArticles :: "jsval \<Rightarrow> js_error + jsval list" where
  "keptArticles articles =
     (case articles of
        JArr xs \<Rightarrow> and_then (js_filter keep_article xs) (\<lambda>kept. Inr (take 8 kept))
      | _ \<Rightarrow> Inl TypeError)"

definition formattedNews :: "string \<Rightarrow> jsval \<Rightarrow> js_error + jsval list" where
  "formattedNews now articles =
     and_then (keptArticles articles) (\<lambda>kept. js_map (format_article now) kept)"

definition company_news_request :: "config \<Rightarrow> string \<Rightarrow> request" where
  "company_news_request cfg companyName =
     AxiosGet ''https://newsapi.org/v2/everything''
       [(''q'', JStr ([CHR 0x22] @ companyName @ [CHR 0x22] @ '' OR '' @
                      [CHR 0x22] @ companyName @ '' company'' @ [CHR 0x22] @ '' OR '' @
                      [CHR 0x22] @ companyName @ '' stock'' @ [CHR 0x22])),
        (''sortBy'', JStr ''publishedAt''),
        (''pageSize'', JNum 12),
        (''language'', JStr ''en''),
        (''apiKey'', JStr (NEWS_API_KEY cfg))]"

definition company_news_try :: "string \<Rightarrow> string \<Rightarrow> jsval \<Rightarrow> js_error + response" where
  "company_news_try now companyName data =
     and_then (get_prop data ''articles'') (\<lambda>articles.
     and_then (formattedNews now (js_or articles (JArr []))) (\<lambda>formatted.
     and_then (get_prop data ''totalResults'') (\<lambda>totalResults.
       Inr \<lparr>status = 200,
            body = JObj [(''companyName'', JStr companyName),
                         (''totalResults'', js_or totalResults (JNum 0)),
                         (''news'', JArr formatted)]\<rparr>)))"

definition company_news_catch :: "js_error \<Rightarrow> response" where
  "company_news_catch e =
     (if map_option fst (error_response e) = Some 426
      then \<lparr>status = 426,
            body = JObj [(''error'', JStr ''NewsAPI requires upgrade for this request''),
                         (''details'', JStr ''Free tier has limitations on search parameters'')]\<rparr>
      else \<lparr>status = 500,
            body = JObj [(''error'', JStr ''Failed to fetch company news''),
                         (''details'',
                            js_or (case error_response e of
                                     None \<Rightarrow> JUndefined
                                   | Some (st, d) \<Rightarrow> opt_prop d ''message'')
                                  (JStr (error_message e))),
                         (''suggestion'',
                            JStr ''Try a more specific company name or try again later'')]\<rparr>)"

definition company_news ::
  "config \<Rightarrow> (request \<Rightarrow> upstream) \<Rightarrow> string \<Rightarrow> string \<Rightarrow> response \<times> request list" where
  "company_news cfg axios now companyName =
     (let rq = company_news_request cfg companyName
      in (try_catch (axios rq) (company_news_try now companyName) company_news_catch, [rq]))"

section \<open>GET /api/company-info/:symbol\<close>

definition company_info_request :: "config \<Rightarrow> string \<Rightarrow> request" where
  "company_info_request cfg symbol =
     AxiosGet ''https://www.alphavantage.co/query''
       [(''function'', JStr ''OVERVIEW''),
        (''symbol'', JStr (toUpperCase symbol)),
        (''apikey'', JStr (ALPHA_VANTAGE_KEY cfg))]"

text \<open>The object literal \<^verbatim>\<open>companyInfo\<close> (server.js lines 150-165) and the log line
  after it, for a payload whose fields \<open>Name\<close> and \<open>Symbol\<close> have been read.\<close>

definition company_info_format :: "string \<Rightarrow> jsval \<Rightarrow> jsval \<Rightarrow> jsval \<Rightarrow> js_error + response" where
  "company_info_format symbol data dName dSymbol =
     and_then (if truthy dSymbol
               then and_then (to_string (js_or dName (JStr symbol))) (\<lambda>shown.
                      Inr (JObj [(''year'', JStr ''2023''),
                                 (''title'', JStr (shown @ '' Annual Report 2023'')),
                                 (''url'', JStr (''https://www.sec.gov/edgar/search/#/entityName='' @
                                                 encodeURIComponent shown)),
                                 (''type'', JStr ''SEC EDGAR Database'')]))
               else Inr JNull) (\<lambda>annualReport.
     and_then (to_string (js_or dName (JStr symbol))) (\<lambda>logged.
       Inr \<lparr>status = 200,
            body = JObj [(''name'', js_or dName (JStr ''Unknown Company'')),
                         (''symbol'', js_or dSymbol (JStr (toUpperCase symbol))),
                         (''sector'', js_or (opt_prop data ''Sector'') (JStr ''Not Available'')),
                         (''industry'', js_or (opt_prop data ''Industry'') (JStr ''Not Available'')),
                         (''marketCap'',
                            js_or (opt_prop data ''MarketCapitalization'') (JStr ''Not Available'')),
                         (''description'',
                            js_or (opt_prop data ''Description'') (JStr ''No description available'')),
                         (''exchange'', js_or (opt_prop data ''Exchange'') (JStr ''Not Available'')),
                         (''country'', js_or (opt_prop data ''Country'') (JStr ''Not Available'')),
                         (''annualReport'', annualReport)]\<rparr>))"

definition company_info_try :: "string \<Rightarrow> jsval \<Rightarrow> js_error + response" where
  "company_info_try symbol data =
     and_then (get_prop data ''Note'') (\<lambda>note.
       if truthy note
       then Inr \<lparr>status = 429,
                 body = JObj [(''error'', JStr ''API rate limit reached''),
                              (''suggestion'',
                                 JStr ''Alpha Vantage allows 5 requests per minute. Please try again in a moment.'')]\<rparr>
       else and_then (get_prop data ''Information'') (\<lambda>information.
         if truthy information
         then Inr \<lparr>status = 400,
                   body = JObj [(''error'', JStr ''API request issue''),
                                (''details'', information)]\<rparr>
         else and_then (get_prop data ''Name'') (\<lambda>dName.
              and_then (get_prop data ''Symbol'') (\<lambda>dSymbol.
                if \<not> truthy dName \<and> \<not> truthy dSymbol
                then Inr \<lparr>status = 404,
                          body = JObj [(''error'', JStr ''Company not found''),
                                       (''suggestion'',
                                          JStr ''Please check the stock symbol and try again'')]\<rparr>
                else company_info_format symbol data dName dSymbol))))"

definition company_info_catch :: "js_error \<Rightarrow> response" where
  "company_info_catch e =
     \<lparr>status = 500,
      body = JObj [(''error'', JStr ''Failed to fetch company information''),
                   (''details'', JStr (error_message e)),
                   (''suggestion'', JStr ''Please try again or check if the symbol exists'')]\<rparr>"

definition company_info ::
  "config \<Rightarrow> (request \<Rightarrow> upstream) \<Rightarrow> string \<Rightarrow> response \<times> request list" where
  "company_info cfg axios symbol =
     (let rq = company_info_request cfg symbol
      in (try_catch (axios rq) (company_info_try symbol) company_info_catch, [rq]))"

section \<open>GET /api/search-symbol/:companyName (server.js)\<close>

definition search_symbol_request :: "config \<Rightarrow> string \<Rightarrow> request" where
  "search_symbol_request cfg companyName =
     AxiosGet ''https://www.alphavantage.co/query''
       [(''function'', JStr ''SYMBOL_SEARCH''),
        (''keywords'', JStr companyName),
        (''apikey'', JStr (ALPHA_VANTAGE_KEY cfg))]"

text \<open>The object literal \<^verbatim>\<open>commonCompanies\<close> (lines 212-223).\<close>

definition commonCompanies :: "(string \<times> string) list" where
  "commonCompanies =
     [(''apple'', ''AAPL''),
      (''microsoft'', ''MSFT''),
      (''google'', ''GOOGL''),
      (''alphabet'', ''GOOGL''),
      (''tesla'', ''TSLA''),
      (''amazon'', ''AMZN''),
      (''meta'', ''META''),
      (''facebook'', ''META''),
      (''netflix'', ''NFLX''),
      (''nvidia'', ''NVDA'')]"

text \<open>What every object literal inherits from \<open>Object.prototype\<close>: its methods, and
  under \<^verbatim>\<open>__proto__\<close> the prototype itself (an object with no enumerable property).\<close>

definition object_prototype :: "(string \<times> jsval) list" where
  "object_prototype =
     [(''constructor'', JFun ''Object''),
      (''__defineGetter__'', JFun ''__defineGetter__''),
      (''__defineSetter__'', JFun ''__defineSetter__''),
      (''hasOwnProperty'', JFun ''hasOwnProperty''),
      (''__lookupGetter__'', JFun ''__lookupGetter__''),
      (''__lookupSetter__'', JFun ''__lookupSetter__''),
      (''isPrototypeOf'', JFun ''isPrototypeOf''),
      (''propertyIsEnumerable'', JFun ''propertyIsEnumerable''),
      (''toString'', JFun ''toString''),
      (''valueOf'', JFun ''valueOf''),
      (''__proto__'', JObj []),
      (''toLocaleString'', JFun ''toLocaleString'')]"

text \<open>\<^verbatim>\<open>commonCompanies[searchKey]\<close>: an own property, else an inherited one, else
  \<open>undefined\<close>.\<close>

definition commonCompanies_get :: "string \<Rightarrow> jsval" where
  "commonCompanies_get k =
     (case map_of commonCompanies k of
        Some s \<Rightarrow> JStr s
      | None \<Rightarrow> (case map_of object_prototype k of Some v \<Rightarrow> v | None \<Rightarrow> JUndefined))"

text \<open>The three constants at the top of the loop body (lines 244-246): the lower-cased
  name, the region and the type of a match.\<close>

definition match_fields :: "jsval \<Rightarrow> js_error + (string \<times> jsval \<times> jsval)" where
  "match_fields match =
     and_then (get_prop match ''2. name'') (\<lambda>name.
     and_then (js_toLowerCase (js_or name (JStr []))) (\<lambda>matchName.
     and_then (get_prop match ''4. region'') (\<lambda>region.
     and_then (get_prop match ''3. type'') (\<lambda>type.
       Inr (matchName, js_or region (JStr []), js_or type (JStr []))))))"

text \<open>The condition of line 249, with the short circuit of \<^verbatim>\<open>&&\<close>.\<close>

definition qualifies :: "string \<Rightarrow> string \<times> jsval \<times> jsval \<Rightarrow> js_error + bool" where
  "qualifies searchKey f =
     (case f of (matchName, region, type) \<Rightarrow>
        if str_includes matchName searchKey \<and> region = JStr ''United States''
        then js_includes type ''Equity''
        else Inr False)"

text \<open>\<^verbatim>\<open>!topMatch || matchName.length < (topMatch['2. name'] || '').length\<close> (line 256);
  a comparison with \<open>undefined\<close> is false.\<close>

definition replaces :: "string \<Rightarrow> jsval \<Rightarrow> bool" where
  "replaces matchName topMatch =
     (\<not> truthy topMatch \<or>
      (case js_length (js_or (opt_prop topMatch ''2. name'') (JStr [])) of
         Some n \<Rightarrow> length matchName < n
       | None \<Rightarrow> False))"

text \<open>The loop of lines 243-260 over the matches still to visit, from the current
  \<open>topMatch\<close> (\<open>null\<close> at the start); \<^verbatim>\<open>break\<close> returns at once.\<close>

fun topMatch_loop :: "string \<Rightarrow> jsval \<Rightarrow> jsval list \<Rightarrow> js_error + jsval" where
  "topMatch_loop searchKey topMatch [] = Inr topMatch"
| "topMatch_loop searchKey topMatch (match # rest) =
     and_then (match_fields match) (\<lambda>f.
     and_then (qualifies searchKey f) (\<lambda>q.
       if q
       then if searchKey = ''apple'' \<and> str_includes (fst f) ''apple inc''
            then Inr match
            else topMatch_loop searchKey (if replaces (fst f) topMatch then match else topMatch) rest
       else topMatch_loop searchKey topMatch rest))"

text \<open>Lines 262-286: the first match when the loop chose none, then the response.\<close>

definition search_symbol_respond :: "jsval list \<Rightarrow> jsval \<Rightarrow> js_error + response" where
  "search_symbol_respond matches chosen =
     (let topMatch = (if \<not> truthy chosen \<and> 0 < length matches then hd matches else chosen)
      in if truthy topMatch
         then and_then (get_prop topMatch ''1. symbol'') (\<lambda>symbol.
              and_then (get_prop topMatch ''2. name'') (\<lambda>name.
              and_then (get_prop topMatch ''3. type'') (\<lambda>type.
              and_then (get_prop topMatch ''4. region'') (\<lambda>region.
              and_then (get_prop topMatch ''8. currency'') (\<lambda>currency.
              and_then (to_string symbol) (\<lambda>logged.
                Inr \<lparr>status = 200,
                     body = JObj [(''symbol'', symbol),
                                  (''name'', name),
                                  (''type'', type),
                                  (''region'', region),
                                  (''currency'', currency),
                                  (''source'', JStr ''api_search'')]\<rparr>))))))
         else Inr \<lparr>status = 200,
                   body = JObj [(''symbol'', JNull),
                                (''message'',
                                   JStr ''No matching stock symbol found. Company may be private or use different name.''),
                                (''suggestion'',
                                   JStr ''Try searching with the exact company legal name or stock ticker'')]\<rparr>)"

text \<open>Lines 241-286, what follows the alias check: the loop over the matches, then the
  response.\<close>

definition search_symbol_matches :: "string \<Rightarrow> jsval \<Rightarrow> js_error + response" where
  "search_symbol_matches searchKey matches =
     and_then (js_iterate matches) (\<lambda>ms.
     and_then (topMatch_loop searchKey JNull ms) (\<lambda>chosen.
       search_symbol_respond ms chosen))"

definition search_symbol_try :: "string \<Rightarrow> jsval \<Rightarrow> js_error + response" where
  "search_symbol_try companyName data =
     and_then (get_prop data ''Note'') (\<lambda>note.
       if truthy note
       then Inr \<lparr>status = 200,
                 body = JObj [(''symbol'', JNull),
                              (''message'',
                                 JStr ''Symbol search temporarily unavailable due to API limits''),
                              (''fallback'', JBool True)]\<rparr>
       else and_then (get_prop data ''bestMatches'') (\<lambda>bestMatches.
         let matches = js_or bestMatches (JArr []);
             searchKey = trim (toLowerCase companyName);
             symbol = commonCompanies_get searchKey
         in if truthy symbol
            then and_then (to_string symbol) (\<lambda>logged.
                   Inr \<lparr>status = 200,
                        body = JObj [(''symbol'', symbol),
                                     (''name'', JStr companyName),
                                     (''type'', JStr ''Equity''),
                                     (''region'', JStr ''United States''),
                                     (''currency'', JStr ''USD''),
                                     (''source'', JStr ''direct_match'')]\<rparr>)
            else search_symbol_matches searchKey matches))"

definition search_symbol_catch :: "js_error \<Rightarrow> response" where
  "search_symbol_catch e =
     \<lparr>status = 200,
      body = JObj [(''symbol'', JNull),
                   (''message'', JStr ''Symbol search failed, but news search will still work''),
                   (''error'', JStr (error_message e)),
                   (''fallback'', JBool True)]\<rparr>"

definition search_symbol ::
  "config \<Rightarrow> (request \<Rightarrow> upstream) \<Rightarrow> string \<Rightarrow> response \<times> request list" where
  "search_symbol cfg axios companyName =
     (let rq = search_symbol_request cfg companyName
      in (try_catch (axios rq) (search_symbol_try companyName) search_symbol_catch, [rq]))"

section \<open>The handlers of nodejs-backend.js\<close>

text \<open>
  Lines 24-162 of \<^verbatim>\<open>src/nodejs-backend.js\<close> (the news and the company-info handlers)
  are, character for character, lines 40-178 of \<^verbatim>\<open>src/server.js\<close>; their callbacks
  and the \<^verbatim>\<open>companyInfo\<close> literal are the definitions above, the handlers around them
  are translated again here.
\<close>

definition nb_company_news_request :: "config \<Rightarrow> string \<Rightarrow> request" where
  "nb_company_news_request cfg companyName =
     AxiosGet ''https://newsapi.org/v2/everything''
       [(''q'', JStr ([CHR 0x22] @ companyName @ [CHR 0x22] @ '' OR '' @
                      [CHR 0x22] @ companyName @ '' company'' @ [CHR 0x22] @ '' OR '' @
                      [CHR 0x22] @ companyName @ '' stock'' @ [CHR 0x22])),
        (''sortBy'', JStr ''publishedAt''),
        (''pageSize'', JNum 12),
        (''language'', JStr ''en''),
        (''apiKey'', JStr (NEWS_API_KEY cfg))]"

definition nb_company_news_try :: "string \<Rightarrow> string \<Rightarrow> jsval \<Rightarrow> js_error + response" where
  "nb_company_news_try now companyName data =
     and_then (get_prop data ''articles'') (\<lambda>articles.
     and_then (formattedNews now (js_or articles (JArr []))) (\<lambda>formatted.
     and_then (get_prop data ''totalResults'') (\<lambda>totalResults.
       Inr \<lparr>status = 200,
            body = JObj [(''companyName'', JStr companyName),
                         (''totalResults'', js_or totalResults (JNum 0)),
                         (''news'', JArr formatted)]\<rparr>)))"

definition nb_company_news_catch :: "js_error \<Rightarrow> response" where
  "nb_company_news_catch e =
     (if map_option fst (error_response e) = Some 426
      then \<lparr>status = 426,
            body = JObj [(''error'', JStr ''NewsAPI requires upgrade for this request''),
                         (''details'', JStr ''Free tier has limitations on search parameters'')]\<rparr>
      else \<lparr>status = 500,
            body = JObj [(''error'', JStr ''Failed to fetch company news''),
                         (''details'',
                            js_or (case error_response e of
                                     None \<Rightarrow> JUndefined
                                   | Some (st, d) \<Rightarrow> opt_prop d ''message'')
                                  (JStr (error_message e))),
                         (''suggestion'',
                            JStr ''Try a more specific company name or try again later'')]\<rparr>)"

definition nb_company_news ::
  "config \<Rightarrow> (request \<Rightarrow> upstream) \<Rightarrow> string \<Rightarrow> string \<Rightarrow> response \<times> request list" where
  "nb_company_news cfg axios now companyName =
     (let rq = nb_company_news_request cfg companyName
      in (try_catch (axios rq) (nb_company_news_try now companyName) nb_company_news_catch, [rq]))"

definition nb_company_info_request :: "config \<Rightarrow> string \<Rightarrow> request" where
  "nb_company_info_request cfg symbol =
     AxiosGet ''https://www.alphavantage.co/query''
       [(''function'', JStr ''OVERVIEW''),
        (''symbol'', JStr (toUpperCase symbol)),
        (''apikey'', JStr (ALPHA_VANTAGE_KEY cfg))]"

definition nb_company_info_try :: "string \<Rightarrow> jsval \<Rightarrow> js_error + response" where
  "nb_company_info_try symbol data =
     and_then (get_prop data ''Note'') (\<lambda>note.
       if truthy note
       then Inr \<lparr>status = 429,
                 body = JObj [(''error'', JStr ''API rate limit reached''),
                              (''suggestion'',
                                 JStr ''Alpha Vantage allows 5 requests per minute. Please try again in a moment.'')]\<rparr>
       else and_then (get_prop data ''Information'') (\<lambda>information.
         if truthy information
         then Inr \<lparr>status = 400,
                   body = JObj [(''error'', JStr ''API request issue''),
                                (''details'', information)]\<rparr>
         else and_then (get_prop data ''Name'') (\<lambda>dName.
              and_then (get_prop data ''Symbol'') (\<lambda>dSymbol.
                if \<not> truthy dName \<and> \<not> truthy dSymbol
                then Inr \<lparr>status = 404,
                          body = JObj [(''error'', JStr ''Company not found''),
                                       (''suggestion'',
                                          JStr ''Please check the stock symbol and try again'')]\<rparr>
                else company_info_format symbol data dName dSymbol))))"

definition nb_company_info_catch :: "js_error \<Rightarrow> response" where
  "nb_company_info_catch e =
     \<lparr>status = 500,
      body = JObj [(''error'', JStr ''Failed to fetch company information''),
                   (''details'', JStr (error_message e)),
                   (''suggestion'', JStr ''Please try again or check if the symbol exists'')]\<rparr>"

definition nb_company_info ::
  "config \<Rightarrow> (request \<Rightarrow> upstream) \<Rightarrow> string \<Rightarrow> response \<times> request list" where
  "nb_company_info cfg axios symbol =
     (let rq = nb_company_info_request cfg symbol
      in (try_catch (axios rq) (nb_company_info_try symbol) nb_company_info_catch, [rq]))"

text \<open>The symbol search of nodejs-backend.js (lines 165-246): no alias table; the
  loop of lines 198-208 stops at the first match of region United States whose type
  includes Equity.\<close>

definition nb_search_symbol_request :: "config \<Rightarrow> string \<Rightarrow> request" where
  "nb_search_symbol_request cfg companyName =
     AxiosGet ''https://www.alphavantage.co/query''
       [(''function'', JStr ''SYMBOL_SEARCH''),
        (''keywords'', JStr companyName),
        (''apikey'', JStr (ALPHA_VANTAGE_KEY cfg))]"

fun nb_topMatch_loop :: "jsval list \<Rightarrow> js_error + jsval" where
  "nb_topMatch_loop [] = Inr JNull"
| "nb_topMatch_loop (match # rest) =
     and_then (get_prop match ''2. name'') (\<lambda>name.
     and_then (get_prop match ''4. region'') (\<lambda>region.
     and_then (get_prop match ''3. type'') (\<lambda>type.
     and_then (if js_or region (JStr []) = JStr ''United States''
               then js_includes (js_or type (JStr [])) ''Equity''
               else Inr False) (\<lambda>q.
       if q then Inr match else nb_topMatch_loop rest))))"

definition nb_search_symbol_respond :: "jsval list \<Rightarrow> jsval \<Rightarrow> js_error + response" where
  "nb_search_symbol_respond matches chosen =
     (let topMatch = (if \<not> truthy chosen \<and> 0 < length matches then hd matches else chosen)
      in if truthy topMatch
         then and_then (get_prop topMatch ''1. symbol'') (\<lambda>symbol.
              and_then (get_prop topMatch ''2. name'') (\<lambda>name.
              and_then (get_prop topMatch ''3. type'') (\<lambda>type.
              and_then (get_prop topMatch ''4. region'') (\<lambda>region.
              and_then (get_prop topMatch ''8. currency'') (\<lambda>currency.
              and_then (to_string symbol) (\<lambda>logged.
                Inr \<lparr>status = 200,
                     body = JObj [(''symbol'', symbol),
                                  (''name'', name),
                                  (''type'', type),
                                  (''region'', region),
                                  (''currency'', currency)]\<rparr>))))))
         else Inr \<lparr>status = 200,
                   body = JObj [(''symbol'', JNull),
                                (''message'',
                                   JStr ''No matching stock symbol found. Company may be private or use different name.''),
                                (''suggestion'',
                                   JStr ''Try searching with the exact company legal name or stock ticker'')]\<rparr>)"

definition nb_search_symbol_try :: "string \<Rightarrow> jsval \<Rightarrow> js_error + response" where
  "nb_search_symbol_try companyName data =
     and_then (get_prop data ''Note'') (\<lambda>note.
       if truthy note
       then Inr \<lparr>status = 200,
                 body = JObj [(''symbol'', JNull),
                              (''message'',
                                 JStr ''Symbol search temporarily unavailable due to API limits''),
                              (''fallback'', JBool True)]\<rparr>
       else and_then (get_prop data ''bestMatches'') (\<lambda>bestMatches.
            and_then (js_iterate (js_or bestMatches (JArr []))) (\<lambda>ms.
            and_then (nb_topMatch_loop ms) (\<lambda>chosen.
              nb_search_symbol_respond ms chosen))))"

definition nb_search_symbol_catch :: "js_error \<Rightarrow> response" where
  "nb_search_symbol_catch e =
     \<lparr>status = 200,
      body = JObj [(''symbol'', JNull),
                   (''message'', JStr ''Symbol search failed, but news search will still work''),
                   (''error'', JStr (error_message e)),
                   (''fallback'', JBool True)]\<rparr>"

definition nb_search_symbol ::
  "config \<Rightarrow> (request \<Rightarrow> upstream) \<Rightarrow> string \<Rightarrow> response \<times> request list" where
  "nb_search_symbol cfg axios companyName =
     (let rq = nb_search_symbol_request cfg companyName
      in (try_catch (axios rq) (nb_search_symbol_try companyName) nb_search_symbol_catch, [rq]))"

section \<open>Predicates and sample values for the statements\<close>

text \<open>A field of a raw record that is a string when it is present.\<close>

definition optional_string :: "jsval \<Rightarrow> bool" where
  "optional_string v = (case v of JUndefined \<Rightarrow> True | JNull \<Rightarrow> True | JStr s \<Rightarrow> True | _ \<Rightarrow> False)"

text \<open>An article as the news provider delivers it: an object whose title and
  publication time, when present, are strings.\<close>

definition raw_article :: "jsval \<Rightarrow> bool" where
  "raw_article a =
     (case a of
        JObj kvs \<Rightarrow> optional_string (opt_prop a ''title'') \<and> optional_string (opt_prop a ''publishedAt'')
      | _ \<Rightarrow> False)"

definition sample_now :: string where
  "sample_now = ''2026-11-02T19:17:00.000Z''"

definition sample_article :: jsval where
  "sample_article =
     JObj [(''title'', JStr ''Apple unveils chip''),
           (''source'', JObj [(''name'', JStr ''Reuters'')]),
           (''publishedAt'', JStr ''2024-05-01T10:00:00Z'')]"

definition sample_removed :: jsval where
  "sample_removed =
     JObj [(''title'', JStr ''Story Removed by editor''),
           (''source'', JObj [(''name'', JStr ''Reuters'')])]"

definition sample_undated :: jsval where
  "sample_undated =
     JObj [(''title'', JStr ''Markets close higher''),
           (''source'', JObj [(''name'', JStr ''AP'')]),
           (''description'', JStr ''Stocks rose.'')]"

definition sample_public :: jsval where
  "sample_public =
     JObj [(''title'', JStr ''Apple unveils chip''),
           (''source'', JStr ''Reuters''),
           (''date'', JStr ''2024-05-01''),
           (''summary'', JStr ''No summary available''),
           (''url'', JUndefined),
           (''imageUrl'', JUndefined)]"

definition sample_public_undated :: jsval where
  "sample_public_undated =
     JObj [(''title'', JStr ''Markets close higher''),
           (''source'', JStr ''AP''),
           (''date'', JStr ''2026-11-02''),
           (''summary'', JStr ''Stocks rose.''),
           (''url'', JUndefined),
           (''imageUrl'', JUndefined)]"




text \<open>A match with its five fields, all strings.\<close>

definition symbol_match :: "string \<Rightarrow> string \<Rightarrow> string \<Rightarrow> string \<Rightarrow> string \<Rightarrow> jsval" where
  "symbol_match symbol name type region currency =
     JObj [(''1. symbol'', JStr symbol),
           (''2. name'', JStr name),
           (''3. type'', JStr type),
           (''4. region'', JStr region),
           (''8. currency'', JStr currency)]"

definition sample_config :: config where
  "sample_config = \<lparr>NEWS_API_KEY = ''news-key'', ALPHA_VANTAGE_KEY = ''quote-key''\<rparr>"

text \<open>The two matches of the tie-break scenario, with the three fields it gives.\<close>

definition apple_reit :: jsval where
  "apple_reit =
     JObj [(''2. name'', JStr ''Apple Hospitality REIT''),
           (''4. region'', JStr ''United States''),
           (''3. type'', JStr ''Equity'')]"

definition apple_inc :: jsval where
  "apple_inc =
     JObj [(''2. name'', JStr ''Apple Inc''),
           (''4. region'', JStr ''United States''),
           (''3. type'', JStr ''Equity Common Stock'')]"





section \<open>Properties\<close>

subsection \<open>Exceptions, filter and map\<close>

lemma and_then_Inl [simp]: "and_then (Inl e) f = Inl e"
  by (simp add: and_then_def)

lemma and_then_Inr [simp]: "and_then (Inr v) f = f v"
  by (simp add: and_then_def)

lemma and_then_eq_Inr: "and_then r f = Inr y \<longleftrightarrow> (\<exists>v. r = Inr v \<and> f v = Inr y)"
  by (cases r) simp_all

lemma js_filter_Inr:
  "js_filter p xs = Inr ys \<Longrightarrow> ys = filter (\<lambda>x. p x = Inr True) xs"
proof (induction xs arbitrary: ys)
  case Nil
  then show ?case by simp
next
  case (Cons x xs)
  from Cons.prems obtain b zs where b: "p x = Inr b" and zs: "js_filter p xs = Inr zs"
    and ys: "ys = (if b then x # zs else zs)"
    by (auto simp: and_then_eq_Inr)
  from Cons.IH [OF zs] b ys show ?case by auto
qed

lemma js_filter_all_kept:
  "\<forall>x \<in> set xs. p x = Inr True \<Longrightarrow> js_filter p xs = Inr xs"
  by (induction xs) simp_all

lemma js_filter_total: "\<forall>x \<in> set xs. \<exists>b. p x = Inr b \<Longrightarrow> \<exists>ys. js_filter p xs = Inr ys"
  by (induction xs) auto

lemma js_map_Inr:
  "js_map f xs = Inr ys \<Longrightarrow> list_all2 (\<lambda>x y. f x = Inr y) xs ys"
proof (induction xs arbitrary: ys)
  case Nil
  then show ?case by simp
next
  case (Cons x xs)
  from Cons.prems obtain y zs where "f x = Inr y" "js_map f xs = Inr zs" "ys = y # zs"
    by (auto simp: and_then_eq_Inr)
  with Cons.IH show ?case by simp
qed

lemma js_map_total: "\<forall>x \<in> set xs. \<exists>y. f x = Inr y \<Longrightarrow> \<exists>ys. js_map f xs = Inr ys"
  by (induction xs) auto

lemma list_all2_right_elem:
  "list_all2 R xs ys \<Longrightarrow> y \<in> set ys \<Longrightarrow> \<exists>x \<in> set xs. R x y"
  by (induction rule: list_all2_induct) auto

subsection \<open>The news pipeline\<close>

lemma keptArticles_Inr:
  "keptArticles articles = Inr kept \<Longrightarrow>
     \<exists>xs. articles = JArr xs \<and> kept = take 8 (filter (\<lambda>a. keep_article a = Inr True) xs)"
  by (cases articles) (auto simp: keptArticles_def and_then_eq_Inr dest: js_filter_Inr)

lemma keep_article_True:
  "keep_article a = Inr True \<Longrightarrow>
     \<exists>t src. get_prop a ''title'' = Inr (JStr t) \<and> t \<noteq> [] \<and> t \<noteq> ''[Removed]'' \<and>
       \<not> str_includes (toLowerCase t) ''removed'' \<and>
       get_prop a ''source'' = Inr src \<and> truthy (opt_prop src ''name'')"
  apply (simp add: keep_article_def and_then_eq_Inr split: if_splits)
  apply (elim exE conjE)
  subgoal for title
    by (cases title) (auto simp: and_then_eq_Inr split: if_splits)
  done

lemma format_article_kept:
  "keep_article a = Inr True \<Longrightarrow> format_article now a = Inr b \<Longrightarrow>
     \<exists>t src. get_prop a ''title'' = Inr (JStr t) \<and> t \<noteq> [] \<and> t \<noteq> ''[Removed]'' \<and>
       \<not> str_includes (toLowerCase t) ''removed'' \<and>
       get_prop b ''title'' = Inr (JStr t) \<and>
       get_prop a ''source'' = Inr src \<and>
       get_prop b ''source'' = Inr (opt_prop src ''name'') \<and> truthy (opt_prop src ''name'')"
  apply (drule keep_article_True)
  apply (elim exE conjE)
  subgoal for t src
    apply (rule exI [of _ t], rule exI [of _ src])
    apply (cases src)
    apply (auto simp: format_article_def and_then_eq_Inr opt_prop_def)
    done
  done

lemma keep_article_raw: "raw_article a \<Longrightarrow> \<exists>b. keep_article a = Inr b"
  apply (cases a; simp add: raw_article_def)
  subgoal for kvs
    apply (cases "opt_prop (JObj kvs) ''title''")
    apply (auto simp: keep_article_def opt_prop_def optional_string_def split: option.splits)
    done
  done

lemma format_article_raw:
  assumes "raw_article a" and "keep_article a = Inr True"
  shows "\<exists>b. format_article now a = Inr b"
proof -
  from keep_article_True [OF assms(2)] obtain t src where
    t: "get_prop a ''title'' = Inr (JStr t)" and
    s: "get_prop a ''source'' = Inr src" and n: "truthy (opt_prop src ''name'')"
    by blast
  from n obtain skvs where src: "src = JObj skvs"
    by (cases src) (simp_all add: opt_prop_def)
  from assms(1) obtain kvs where a: "a = JObj kvs"
    and p: "optional_string (opt_prop a ''publishedAt'')"
    by (cases a) (simp_all add: raw_article_def)
  from p a have "\<exists>d. (if truthy (opt_prop a ''publishedAt'')
        then js_split_T_first (opt_prop a ''publishedAt'')
        else Inr (JStr (split_T_first now))) = Inr d"
    by (cases "opt_prop a ''publishedAt''") (simp_all add: optional_string_def)
  with t s src a show ?thesis
    by (auto simp: format_article_def opt_prop_def)
qed

lemma formattedNews_total:
  assumes "\<forall>a \<in> set xs. raw_article a"
  shows "\<exists>out. formattedNews now (JArr xs) = Inr out"
proof -
  from assms have "\<forall>a \<in> set xs. \<exists>b. keep_article a = Inr b"
    by (blast dest: keep_article_raw)
  then obtain ys where ys: "js_filter keep_article xs = Inr ys"
    using js_filter_total by blast
  then have "\<forall>a \<in> set ys. raw_article a \<and> keep_article a = Inr True"
    using assms by (auto dest: js_filter_Inr)
  then have "\<forall>a \<in> set (take 8 ys). \<exists>b. format_article now a = Inr b"
    by (meson format_article_raw in_set_takeD)
  then obtain out where "js_map (format_article now) (take 8 ys) = Inr out"
    using js_map_total by blast
  with ys show ?thesis
    by (simp add: formattedNews_def keptArticles_def)
qed

lemma formattedNews_Inr:
  assumes "formattedNews now articles = Inr out"
  shows "\<exists>xs. articles = JArr xs \<and>
           list_all2 (\<lambda>a b. format_article now a = Inr b)
             (take 8 (filter (\<lambda>a. keep_article a = Inr True) xs)) out"
proof -
  from assms obtain kept where k: "keptArticles articles = Inr kept"
    and m: "js_map (format_article now) kept = Inr out"
    by (auto simp: formattedNews_def and_then_eq_Inr)
  from keptArticles_Inr [OF k] js_map_Inr [OF m] show ?thesis by auto
qed

text \<open>
  C4. Whenever the news pipeline (filter, \<^verbatim>\<open>slice(0, 8)\<close>, map) produces a list, the list
  has at most 8 elements, and every element has a title that is a non-empty string, is
  not \<^verbatim>\<open>[Removed]\<close> and whose lower-cased form does not contain \<^verbatim>\<open>removed\<close>, and a source
  that is truthy (so non-empty when it is a string). The pipeline produces a list for
  every list of articles as the provider delivers them; on other payloads it may raise
  instead (a title that is no string), and then the handler answers 500 with no list.
\<close>

theorem formattedNews_capped_and_clean:
  "(\<forall>out. formattedNews now articles = Inr out \<longrightarrow>
      length out \<le> 8 \<and>
      (\<forall>b \<in> set out. \<exists>t s.
          get_prop b ''title'' = Inr (JStr t) \<and> t \<noteq> [] \<and> t \<noteq> ''[Removed]'' \<and>
          \<not> str_includes (toLowerCase t) ''removed'' \<and>
          get_prop b ''source'' = Inr s \<and> truthy s)) \<and>
   ((\<forall>a \<in> set xs. raw_article a) \<longrightarrow> (\<exists>out. formattedNews now (JArr xs) = Inr out))"
proof (intro conjI allI impI)
  fix out
  assume "formattedNews now articles = Inr out"
  then obtain ys kept where kept: "kept = take 8 (filter (\<lambda>a. keep_article a = Inr True) ys)"
    and l: "list_all2 (\<lambda>a b. format_article now a = Inr b) kept out"
    using formattedNews_Inr by blast
  from kept have "length kept \<le> 8" by simp
  with list_all2_lengthD [OF l] show "length out \<le> 8" by simp
  show "\<forall>b \<in> set out. \<exists>t s.
          get_prop b ''title'' = Inr (JStr t) \<and> t \<noteq> [] \<and> t \<noteq> ''[Removed]'' \<and>
          \<not> str_includes (toLowerCase t) ''removed'' \<and>
          get_prop b ''source'' = Inr s \<and> truthy s"
  proof
    fix b assume b: "b \<in> set out"
    from list_all2_right_elem [OF l b]
    obtain a where a: "a \<in> set kept" and f: "format_article now a = Inr b"
      by blast
    from a kept have "keep_article a = Inr True"
      by (auto dest: in_set_takeD)
    from format_article_kept [OF this f] show "\<exists>t s.
          get_prop b ''title'' = Inr (JStr t) \<and> t \<noteq> [] \<and> t \<noteq> ''[Removed]'' \<and>
          \<not> str_includes (toLowerCase t) ''removed'' \<and>
          get_prop b ''source'' = Inr s \<and> truthy s"
      by blast
  qed
next
  assume "\<forall>a \<in> set xs. raw_article a"
  then show "\<exists>out. formattedNews now (JArr xs) = Inr out"
    by (rule formattedNews_total)
qed

text \<open>Ten articles, one of them removed: eight come out.\<close>

theorem formattedNews_capped_and_clean_witness:
  "formattedNews sample_now (JArr (sample_removed # replicate 9 sample_article))
     = Inr (replicate 8 sample_public) \<and>
   length (replicate 8 sample_public) \<le> 8 \<and>
   (\<exists>t s. get_prop sample_public ''title'' = Inr (JStr t) \<and> t \<noteq> [] \<and> t \<noteq> ''[Removed]'' \<and>
      \<not> str_includes (toLowerCase t) ''removed'' \<and>
      get_prop sample_public ''source'' = Inr s \<and> truthy s)"
proof -
  have e: "formattedNews sample_now (JArr (sample_removed # replicate 9 sample_article))
     = Inr (replicate 8 sample_public)"
    by code_simp
  have m: "sample_public \<in> set (replicate 8 sample_public)"
    by simp
  from formattedNews_capped_and_clean
    [of sample_now "JArr (sample_removed # replicate 9 sample_article)" "[]"] e m
  show ?thesis by blast
qed

text \<open>
  C6. The output of the news pipeline is the image, element by element under the map
  callback, of a subsequence of the input: the first 8 articles the filter retains, in
  their input order.
\<close>

theorem formattedNews_subsequence:
  "formattedNews now articles = Inr out \<Longrightarrow>
     \<exists>xs kept. articles = JArr xs \<and> subseq kept xs \<and>
       kept = take 8 (filter (\<lambda>a. keep_article a = Inr True) xs) \<and>
       list_all2 (\<lambda>a b. format_article now a = Inr b) kept out"
proof -
  assume "formattedNews now articles = Inr out"
  then obtain xs where xs: "articles = JArr xs"
    and l: "list_all2 (\<lambda>a b. format_article now a = Inr b)
             (take 8 (filter (\<lambda>a. keep_article a = Inr True) xs)) out"
    using formattedNews_Inr by blast
  let ?f = "filter (\<lambda>a. keep_article a = Inr True) xs"
  have "subseq (take 8 ?f) ?f"
    by (simp add: prefix_imp_subseq take_is_prefix)
  moreover have "subseq ?f xs" by simp
  ultimately have "subseq (take 8 ?f) xs"
    by (rule subseq_order.trans)
  with xs l show ?thesis by blast
qed

theorem formattedNews_subsequence_witness:
  "formattedNews sample_now (JArr [sample_article, sample_removed, sample_undated])
     = Inr [sample_public, sample_public_undated] \<and>
   (\<exists>kept. subseq kept [sample_article, sample_removed, sample_undated] \<and>
      list_all2 (\<lambda>a b. format_article sample_now a = Inr b) kept
        [sample_public, sample_public_undated])"
proof -
  have e: "formattedNews sample_now (JArr [sample_article, sample_removed, sample_undated])
     = Inr [sample_public, sample_public_undated]"
    by code_simp
  from formattedNews_subsequence [OF e] show ?thesis
    using e by auto
qed

text \<open>
  C5 (as amended). The filter-and-cap stage is idempotent: applied to the list of
  articles it retained, it returns that list unchanged.
\<close>

theorem keptArticles_idempotent:
  "keptArticles articles = Inr kept \<Longrightarrow> keptArticles (JArr kept) = Inr kept"
proof -
  assume "keptArticles articles = Inr kept"
  then obtain xs where k: "kept = take 8 (filter (\<lambda>a. keep_article a = Inr True) xs)"
    using keptArticles_Inr by blast
  then have "\<forall>a \<in> set kept. keep_article a = Inr True"
    by (auto dest: in_set_takeD)
  then have "js_filter keep_article kept = Inr kept"
    by (rule js_filter_all_kept)
  moreover from k have "take 8 kept = kept" by simp
  ultimately show ?thesis
    by (simp add: keptArticles_def)
qed

theorem keptArticles_idempotent_witness:
  "keptArticles (JArr [sample_article, sample_removed, sample_undated])
     = Inr [sample_article, sample_undated] \<and>
   keptArticles (JArr [sample_article, sample_undated]) = Inr [sample_article, sample_undated]"
proof -
  have e: "keptArticles (JArr [sample_article, sample_removed, sample_undated])
     = Inr [sample_article, sample_undated]"
    by code_simp
  from keptArticles_idempotent [OF e] e show ?thesis by simp
qed

text \<open>
  The whole pipeline is not idempotent: its map stage replaces the \<open>source\<close> object of
  an article by the source's name, and the filter reads \<^verbatim>\<open>source?.name\<close>. Formatting the
  formatted sample article yields the empty list.
\<close>

theorem formattedNews_not_idempotent:
  "formattedNews sample_now (JArr [sample_article]) = Inr [sample_public] \<and>
   formattedNews sample_now (JArr [sample_public]) = Inr [] \<and>
   formattedNews sample_now (JArr [sample_public]) \<noteq> Inr [sample_public]"
  by code_simp

subsection \<open>Substrings\<close>

lemma str_includes_sublist: "str_includes s t \<longleftrightarrow> sublist t s"
  by (induction s) (simp_all add: sublist_Cons_right)

lemma str_includes_iff: "str_includes s t \<longleftrightarrow> (\<exists>before after. s = before @ t @ after)"
  by (simp add: str_includes_sublist sublist_def)

subsection \<open>Reading properties of a payload\<close>

lemma get_prop_opt:
  "data \<noteq> JNull \<Longrightarrow> data \<noteq> JUndefined \<Longrightarrow> get_prop data k = Inr (opt_prop data k)"
  by (cases data) (simp_all add: opt_prop_def)

lemma truthy_opt_prop: "truthy (opt_prop data k) \<Longrightarrow> data \<noteq> JNull \<and> data \<noteq> JUndefined"
  by (cases data) (simp_all add: opt_prop_def)

subsection \<open>The news handler\<close>

text \<open>
  C10. In the success response of the news handler, \<open>totalResults\<close> is the payload's
  \<open>totalResults\<close>, or 0 when that is absent (or falsy), whatever the articles are; the
  \<open>news\<close> array is the formatted list. For a given list of articles every number is a
  possible \<open>totalResults\<close>, so the two counts need not agree on any list.
\<close>

theorem company_news_totalResults:
  assumes "formattedNews now (js_or articles (JArr [])) = Inr out"
  shows "(\<forall>data. get_prop data ''articles'' = Inr articles \<longrightarrow>
            axios (company_news_request cfg companyName) = Resolved data \<longrightarrow>
            fst (company_news cfg axios now companyName) =
              \<lparr>status = 200,
               body = JObj [(''companyName'', JStr companyName),
                            (''totalResults'', js_or (opt_prop data ''totalResults'') (JNum 0)),
                            (''news'', JArr out)]\<rparr>) \<and>
         (\<forall>n. fst (company_news cfg
                   (\<lambda>rq. Resolved (JObj [(''articles'', articles), (''totalResults'', JNum n)]))
                   now companyName) =
              \<lparr>status = 200,
               body = JObj [(''companyName'', JStr companyName),
                            (''totalResults'', JNum n),
                            (''news'', JArr out)]\<rparr>)"
proof (intro conjI allI impI)
  fix data
  assume a: "get_prop data ''articles'' = Inr articles"
    and r: "axios (company_news_request cfg companyName) = Resolved data"
  from a have "data \<noteq> JNull" "data \<noteq> JUndefined" by auto
  then have "get_prop data ''totalResults'' = Inr (opt_prop data ''totalResults'')"
    by (rule get_prop_opt)
  with a r assms show "fst (company_news cfg axios now companyName) =
              \<lparr>status = 200,
               body = JObj [(''companyName'', JStr companyName),
                            (''totalResults'', js_or (opt_prop data ''totalResults'') (JNum 0)),
                            (''news'', JArr out)]\<rparr>"
    by (simp add: company_news_def Let_def try_catch_def company_news_try_def)
next
  fix n
  from assms show "fst (company_news cfg
                   (\<lambda>rq. Resolved (JObj [(''articles'', articles), (''totalResults'', JNum n)]))
                   now companyName) =
              \<lparr>status = 200,
               body = JObj [(''companyName'', JStr companyName),
                            (''totalResults'', JNum n),
                            (''news'', JArr out)]\<rparr>"
    by (simp add: company_news_def Let_def try_catch_def company_news_try_def js_or_def)
qed

theorem company_news_totalResults_witness:
  "fst (company_news sample_config
         (\<lambda>rq. Resolved (JObj [(''articles'', JArr [sample_article, sample_removed]),
                                (''totalResults'', JNum 5321)]))
         sample_now ''Apple'') =
     \<lparr>status = 200,
      body = JObj [(''companyName'', JStr ''Apple''),
                   (''totalResults'', JNum 5321),
                   (''news'', JArr [sample_public])]\<rparr> \<and>
   int (length [sample_public]) < 5321"
proof -
  have e: "formattedNews sample_now (js_or (JArr [sample_article, sample_removed]) (JArr []))
             = Inr [sample_public]"
    by code_simp
  from company_news_totalResults [OF e] show ?thesis by simp
qed

subsection \<open>The company-info handler\<close>

text \<open>
  C3. The company-info handler classifies a payload (any value but \<open>null\<close>) in this
  order: a rate-limit marker \<open>Note\<close> gives 429 with the quota suggestion; otherwise an
  \<open>Information\<close> marker gives 400 with that marker as the details; otherwise a payload
  with neither \<open>Name\<close> nor \<open>Symbol\<close> gives 404; otherwise the payload is formatted,
  with status 200 when its name is a string or absent. A field counts as present when
  its value is truthy, which is what the handler tests.
\<close>

theorem company_info_classification:
  assumes "axios (company_info_request cfg symbol) = Resolved data"
    and "data \<noteq> JNull" and "data \<noteq> JUndefined"
  shows
    "(truthy (opt_prop data ''Note'') \<longrightarrow>
        fst (company_info cfg axios symbol) =
          \<lparr>status = 429,
           body = JObj [(''error'', JStr ''API rate limit reached''),
                        (''suggestion'',
                           JStr ''Alpha Vantage allows 5 requests per minute. Please try again in a moment.'')]\<rparr>) \<and>
     (\<not> truthy (opt_prop data ''Note'') \<and> truthy (opt_prop data ''Information'') \<longrightarrow>
        fst (company_info cfg axios symbol) =
          \<lparr>status = 400,
           body = JObj [(''error'', JStr ''API request issue''),
                        (''details'', opt_prop data ''Information'')]\<rparr>) \<and>
     (\<not> truthy (opt_prop data ''Note'') \<and> \<not> truthy (opt_prop data ''Information'') \<and>
      \<not> truthy (opt_prop data ''Name'') \<and> \<not> truthy (opt_prop data ''Symbol'') \<longrightarrow>
        fst (company_info cfg axios symbol) =
          \<lparr>status = 404,
           body = JObj [(''error'', JStr ''Company not found''),
                        (''suggestion'', JStr ''Please check the stock symbol and try again'')]\<rparr>) \<and>
     (\<not> truthy (opt_prop data ''Note'') \<and> \<not> truthy (opt_prop data ''Information'') \<and>
      (truthy (opt_prop data ''Name'') \<or> truthy (opt_prop data ''Symbol'')) \<longrightarrow>
        fst (company_info cfg axios symbol) =
          (case company_info_format symbol data (opt_prop data ''Name'') (opt_prop data ''Symbol'') of
             Inl e \<Rightarrow> company_info_catch e
           | Inr r \<Rightarrow> r) \<and>
        (optional_string (opt_prop data ''Name'') \<longrightarrow>
           status (fst (company_info cfg axios symbol)) = 200))"
proof -
  have g: "\<And>k. get_prop data k = Inr (opt_prop data k)"
    using assms(2,3) by (rule get_prop_opt)
  have f: "optional_string (opt_prop data ''Name'') \<Longrightarrow>
     \<exists>r. company_info_format symbol data (opt_prop data ''Name'') (opt_prop data ''Symbol'') = Inr r
        \<and> status r = 200"
    by (cases "opt_prop data ''Name''")
       (simp_all add: optional_string_def company_info_format_def js_or_def)
  show ?thesis
    using assms(1) f
    by (auto simp: company_info_def Let_def try_catch_def company_info_try_def g split: sum.splits)
qed

theorem company_info_classification_witness:
  "fst (company_info sample_config
          (\<lambda>rq. Resolved (JObj [(''Note'', JStr ''Thank you for using Alpha Vantage!''),
                                 (''Information'', JStr ''Invalid API call''),
                                 (''Symbol'', JStr ''IBM'')])) ''ibm'') =
     \<lparr>status = 429,
      body = JObj [(''error'', JStr ''API rate limit reached''),
                   (''suggestion'',
                      JStr ''Alpha Vantage allows 5 requests per minute. Please try again in a moment.'')]\<rparr> \<and>
   fst (company_info sample_config
          (\<lambda>rq. Resolved (JObj [(''Information'', JStr ''Invalid API call''),
                                 (''Symbol'', JStr ''IBM'')])) ''ibm'') =
     \<lparr>status = 400,
      body = JObj [(''error'', JStr ''API request issue''),
                   (''details'', JStr ''Invalid API call'')]\<rparr> \<and>
   fst (company_info sample_config (\<lambda>rq. Resolved (JObj [])) ''ibm'') =
     \<lparr>status = 404,
      body = JObj [(''error'', JStr ''Company not found''),
                   (''suggestion'', JStr ''Please check the stock symbol and try again'')]\<rparr> \<and>
   status (fst (company_info sample_config
                  (\<lambda>rq. Resolved (JObj [(''Symbol'', JStr ''IBM'')])) ''ibm'')) = 200"
proof -
  have 1: "fst (company_info sample_config
          (\<lambda>rq. Resolved (JObj [(''Note'', JStr ''Thank you for using Alpha Vantage!''),
                                 (''Information'', JStr ''Invalid API call''),
                                 (''Symbol'', JStr ''IBM'')])) ''ibm'') =
     \<lparr>status = 429,
      body = JObj [(''error'', JStr ''API rate limit reached''),
                   (''suggestion'',
                      JStr ''Alpha Vantage allows 5 requests per minute. Please try again in a moment.'')]\<rparr>"
    using company_info_classification
      [where axios = "\<lambda>rq. Resolved (JObj [(''Note'', JStr ''Thank you for using Alpha Vantage!''),
                                 (''Information'', JStr ''Invalid API call''),
                                 (''Symbol'', JStr ''IBM'')])"
         and data = "JObj [(''Note'', JStr ''Thank you for using Alpha Vantage!''),
                                 (''Information'', JStr ''Invalid API call''),
                                 (''Symbol'', JStr ''IBM'')]"
         and cfg = sample_config and symbol = "''ibm''"]
    by (simp add: opt_prop_def)
  have 2: "fst (company_info sample_config
          (\<lambda>rq. Resolved (JObj [(''Information'', JStr ''Invalid API call''),
                                 (''Symbol'', JStr ''IBM'')])) ''ibm'') =
     \<lparr>status = 400,
      body = JObj [(''error'', JStr ''API request issue''),
                   (''details'', JStr ''Invalid API call'')]\<rparr>"
    using company_info_classification
      [where axios = "\<lambda>rq. Resolved (JObj [(''Information'', JStr ''Invalid API call''),
                                 (''Symbol'', JStr ''IBM'')])"
         and data = "JObj [(''Information'', JStr ''Invalid API call''),
                                 (''Symbol'', JStr ''IBM'')]"
         and cfg = sample_config and symbol = "''ibm''"]
    by (simp add: opt_prop_def)
  have 3: "fst (company_info sample_config (\<lambda>rq. Resolved (JObj [])) ''ibm'') =
     \<lparr>status = 404,
      body = JObj [(''error'', JStr ''Company not found''),
                   (''suggestion'', JStr ''Please check the stock symbol and try again'')]\<rparr>"
    using company_info_classification
      [where axios = "\<lambda>rq. Resolved (JObj [])" and data = "JObj []"
         and cfg = sample_config and symbol = "''ibm''"]
    by (simp add: opt_prop_def)
  have 4: "status (fst (company_info sample_config
                  (\<lambda>rq. Resolved (JObj [(''Symbol'', JStr ''IBM'')])) ''ibm'')) = 200"
    by code_simp
  from 1 2 3 4 show ?thesis by blast
qed

subsection \<open>Normalised names and the alias lookup\<close>

text \<open>A lower-cased name has no upper-case letter, so of the names every object
  inherits only \<^verbatim>\<open>constructor\<close> and \<^verbatim>\<open>__proto__\<close> can be the search key: the lookup
  \<^verbatim>\<open>commonCompanies[searchKey]\<close> is truthy exactly for the ten aliases and these two.\<close>

lemma toLowerChar_not_upper: "\<not> is_upper_code (of_char (toLowerChar c))"
proof (cases "is_upper_code (of_char c)")
  case True
  then have "(of_char c :: nat) + 32 < 256"
    by (auto simp: is_upper_code_def)
  then have "(of_char (char_of ((of_char c :: nat) + 32)) :: nat) = of_char c + 32"
    by simp
  with True show ?thesis
    by (auto simp: toLowerChar_def Let_def is_upper_code_def)
next
  case False
  then show ?thesis by (simp add: toLowerChar_def Let_def)
qed

lemma set_trim: "set (trim s) \<subseteq> set s"
proof -
  have "set (dropWhile is_space (rev (dropWhile is_space s))) \<subseteq> set (rev (dropWhile is_space s))"
    by (auto dest: set_dropWhileD)
  also have "\<dots> \<subseteq> set s"
    by (auto dest: set_dropWhileD)
  finally show ?thesis by (simp add: trim_def)
qed

lemma normalised_no_upper:
  assumes "c \<in> set (trim (toLowerCase n))"
  shows "\<not> is_upper_code (of_char c)"
proof -
  from assms set_trim have "c \<in> set (toLowerCase n)" by blast
  then obtain x where "c = toLowerChar x"
    by (auto simp: toLowerCase_def)
  then show ?thesis by (simp add: toLowerChar_not_upper)
qed

lemma not_normalised:
  assumes "c \<in> set name" and "is_upper_code (of_char c)"
  shows "trim (toLowerCase n) \<noteq> name"
  using assms normalised_no_upper by blast

lemma object_prototype_normalised:
  "map_of object_prototype (trim (toLowerCase n)) =
     (if trim (toLowerCase n) = ''constructor'' then Some (JFun ''Object'')
      else if trim (toLowerCase n) = ''__proto__'' then Some (JObj [])
      else None)"
proof -
  let ?k = "trim (toLowerCase n)"
  have u: "is_upper_code (of_char (CHR ''G''))" "is_upper_code (of_char (CHR ''S''))"
    "is_upper_code (of_char (CHR ''O''))" "is_upper_code (of_char (CHR ''P''))"
    "is_upper_code (of_char (CHR ''I''))" "is_upper_code (of_char (CHR ''L''))"
    by code_simp+
  have "?k \<noteq> ''__defineGetter__''" by (rule not_normalised [OF _ u(1)]) simp
  moreover have "?k \<noteq> ''__defineSetter__''" by (rule not_normalised [OF _ u(2)]) simp
  moreover have "?k \<noteq> ''hasOwnProperty''" by (rule not_normalised [OF _ u(3)]) simp
  moreover have "?k \<noteq> ''__lookupGetter__''" by (rule not_normalised [OF _ u(1)]) simp
  moreover have "?k \<noteq> ''__lookupSetter__''" by (rule not_normalised [OF _ u(2)]) simp
  moreover have "?k \<noteq> ''isPrototypeOf''" by (rule not_normalised [OF _ u(4)]) simp
  moreover have "?k \<noteq> ''propertyIsEnumerable''" by (rule not_normalised [OF _ u(5)]) simp
  moreover have "?k \<noteq> ''toString''" by (rule not_normalised [OF _ u(2)]) simp
  moreover have "?k \<noteq> ''valueOf''" by (rule not_normalised [OF _ u(3)]) simp
  moreover have "?k \<noteq> ''toLocaleString''" by (rule not_normalised [OF _ u(6)]) simp
  ultimately show ?thesis
    by (simp add: object_prototype_def)
qed

lemma commonCompanies_get_alias:
  "map_of commonCompanies k = Some s \<Longrightarrow> commonCompanies_get k = JStr s \<and> s \<noteq> []"
  by (auto simp: commonCompanies_get_def commonCompanies_def split: if_splits)

lemma alias_lookup_falsy:
  "(\<not> truthy (commonCompanies_get (trim (toLowerCase n)))) =
     (map_of commonCompanies (trim (toLowerCase n)) = None \<and>
      trim (toLowerCase n) \<noteq> ''constructor'' \<and> trim (toLowerCase n) \<noteq> ''__proto__'')"
proof (cases "map_of commonCompanies (trim (toLowerCase n))")
  case None
  then show ?thesis
    by (simp add: commonCompanies_get_def object_prototype_normalised)
next
  case (Some s)
  with commonCompanies_get_alias [OF Some] show ?thesis by simp
qed

subsection \<open>The symbol search of server.js\<close>

text \<open>
  C1 (as amended). The handler sends its one upstream request first, whatever the company
  name is. For a name whose lower-cased, trimmed form is a key of the alias table: when
  the call resolves with a payload other than \<open>null\<close> that has no rate-limit marker,
  the answer is the alias's symbol with the name as given, type Equity, region United
  States, currency USD and source \<open>direct_match\<close>, whatever matches the payload lists;
  when the payload has a rate-limit marker, when it is \<open>null\<close>, and when the call
  fails, the answer is a fallback body with \<open>symbol: null\<close> and \<open>fallback: true\<close>.
\<close>

theorem search_symbol_alias_after_upstream:
  assumes "map_of commonCompanies (trim (toLowerCase companyName)) = Some ticker"
  shows
    "snd (search_symbol cfg axios companyName) = [search_symbol_request cfg companyName] \<and>
     (\<forall>data. axios (search_symbol_request cfg companyName) = Resolved data \<and>
        data \<noteq> JNull \<and> data \<noteq> JUndefined \<and> \<not> truthy (opt_prop data ''Note'') \<longrightarrow>
        fst (search_symbol cfg axios companyName) =
          \<lparr>status = 200,
           body = JObj [(''symbol'', JStr ticker),
                        (''name'', JStr companyName),
                        (''type'', JStr ''Equity''),
                        (''region'', JStr ''United States''),
                        (''currency'', JStr ''USD''),
                        (''source'', JStr ''direct_match'')]\<rparr>) \<and>
     (\<forall>data. axios (search_symbol_request cfg companyName) = Resolved data \<and>
        truthy (opt_prop data ''Note'') \<longrightarrow>
        fst (search_symbol cfg axios companyName) =
          \<lparr>status = 200,
           body = JObj [(''symbol'', JNull),
                        (''message'', JStr ''Symbol search temporarily unavailable due to API limits''),
                        (''fallback'', JBool True)]\<rparr>) \<and>
     (\<forall>data. axios (search_symbol_request cfg companyName) = Resolved data \<and>
        (data = JNull \<or> data = JUndefined) \<longrightarrow>
        (\<exists>msg. fst (search_symbol cfg axios companyName) =
          \<lparr>status = 200,
           body = JObj [(''symbol'', JNull),
                        (''message'', JStr ''Symbol search failed, but news search will still work''),
                        (''error'', JStr msg),
                        (''fallback'', JBool True)]\<rparr>)) \<and>
     (\<forall>msg r. axios (search_symbol_request cfg companyName) = Rejected (AxiosError msg r) \<longrightarrow>
        fst (search_symbol cfg axios companyName) =
          \<lparr>status = 200,
           body = JObj [(''symbol'', JNull),
                        (''message'', JStr ''Symbol search failed, but news search will still work''),
                        (''error'', JStr msg),
                        (''fallback'', JBool True)]\<rparr>)"
proof (intro conjI allI impI)
  show "snd (search_symbol cfg axios companyName) = [search_symbol_request cfg companyName]"
    by (simp add: search_symbol_def Let_def)
next
  fix data
  assume a: "axios (search_symbol_request cfg companyName) = Resolved data \<and>
        data \<noteq> JNull \<and> data \<noteq> JUndefined \<and> \<not> truthy (opt_prop data ''Note'')"
  then have g: "\<And>k. get_prop data k = Inr (opt_prop data k)"
    by (simp add: get_prop_opt)
  from commonCompanies_get_alias [OF assms] a
  show "fst (search_symbol cfg axios companyName) =
          \<lparr>status = 200,
           body = JObj [(''symbol'', JStr ticker),
                        (''name'', JStr companyName),
                        (''type'', JStr ''Equity''),
                        (''region'', JStr ''United States''),
                        (''currency'', JStr ''USD''),
                        (''source'', JStr ''direct_match'')]\<rparr>"
    by (simp add: search_symbol_def Let_def try_catch_def search_symbol_try_def g)
next
  fix data
  assume a: "axios (search_symbol_request cfg companyName) = Resolved data \<and>
        truthy (opt_prop data ''Note'')"
  then have "get_prop data ''Note'' = Inr (opt_prop data ''Note'')"
    using truthy_opt_prop get_prop_opt by blast
  with a show "fst (search_symbol cfg axios companyName) =
          \<lparr>status = 200,
           body = JObj [(''symbol'', JNull),
                        (''message'', JStr ''Symbol search temporarily unavailable due to API limits''),
                        (''fallback'', JBool True)]\<rparr>"
    by (simp add: search_symbol_def Let_def try_catch_def search_symbol_try_def)
next
  fix data
  assume a: "axios (search_symbol_request cfg companyName) = Resolved data \<and>
        (data = JNull \<or> data = JUndefined)"
  then have "search_symbol_try companyName data = Inl TypeError"
    by (auto simp: search_symbol_try_def)
  with a have "fst (search_symbol cfg axios companyName) = search_symbol_catch TypeError"
    by (simp add: search_symbol_def Let_def try_catch_def)
  then show "\<exists>msg. fst (search_symbol cfg axios companyName) =
          \<lparr>status = 200,
           body = JObj [(''symbol'', JNull),
                        (''message'', JStr ''Symbol search failed, but news search will still work''),
                        (''error'', JStr msg),
                        (''fallback'', JBool True)]\<rparr>"
    by (simp add: search_symbol_catch_def)
next
  fix msg r
  assume "axios (search_symbol_request cfg companyName) = Rejected (AxiosError msg r)"
  then show "fst (search_symbol cfg axios companyName) =
          \<lparr>status = 200,
           body = JObj [(''symbol'', JNull),
                        (''message'', JStr ''Symbol search failed, but news search will still work''),
                        (''error'', JStr msg),
                        (''fallback'', JBool True)]\<rparr>"
    by (simp add: search_symbol_def Let_def try_catch_def search_symbol_catch_def)
qed

text \<open>The name is given with capitals, leading spaces and a trailing no-break space.\<close>

theorem search_symbol_alias_after_upstream_witness:
  "snd (search_symbol sample_config
          (\<lambda>rq. Resolved (JObj [(''bestMatches'', JArr [apple_reit, apple_inc])]))
          (''  ApPLe'' @ [CHR 0xA0])) =
     [AxiosGet ''https://www.alphavantage.co/query''
        [(''function'', JStr ''SYMBOL_SEARCH''),
         (''keywords'', JStr (''  ApPLe'' @ [CHR 0xA0])),
         (''apikey'', JStr ''quote-key'')]] \<and>
   fst (search_symbol sample_config
          (\<lambda>rq. Resolved (JObj [(''bestMatches'', JArr [apple_reit, apple_inc])]))
          (''  ApPLe'' @ [CHR 0xA0])) =
     \<lparr>status = 200,
      body = JObj [(''symbol'', JStr ''AAPL''),
                   (''name'', JStr (''  ApPLe'' @ [CHR 0xA0])),
                   (''type'', JStr ''Equity''),
                   (''region'', JStr ''United States''),
                   (''currency'', JStr ''USD''),
                   (''source'', JStr ''direct_match'')]\<rparr>"
proof -
  have a: "map_of commonCompanies (trim (toLowerCase (''  ApPLe'' @ [CHR 0xA0]))) = Some ''AAPL''"
    by code_simp
  from search_symbol_alias_after_upstream
    [OF a, where cfg = sample_config
       and axios = "\<lambda>rq. Resolved (JObj [(''bestMatches'', JArr [apple_reit, apple_inc])])"]
  show ?thesis
    by (simp add: search_symbol_request_def sample_config_def opt_prop_def)
qed

text \<open>
  The alias lookup does not come first: for the alias key \<open>apple\<close> the request is sent,
  and when it fails (or is rate limited) the answer has no symbol.
\<close>

theorem search_symbol_alias_not_first:
  "map_of commonCompanies (trim (toLowerCase ''apple'')) = Some ''AAPL'' \<and>
   search_symbol sample_config
     (\<lambda>rq. Rejected (AxiosError ''timeout of 10000ms exceeded'' None)) ''apple'' =
     (\<lparr>status = 200,
       body = JObj [(''symbol'', JNull),
                    (''message'', JStr ''Symbol search failed, but news search will still work''),
                    (''error'', JStr ''timeout of 10000ms exceeded''),
                    (''fallback'', JBool True)]\<rparr>,
      [AxiosGet ''https://www.alphavantage.co/query''
         [(''function'', JStr ''SYMBOL_SEARCH''),
          (''keywords'', JStr ''apple''),
          (''apikey'', JStr ''quote-key'')]]) \<and>
   fst (search_symbol sample_config
     (\<lambda>rq. Resolved (JObj [(''Note'', JStr ''Thank you for using Alpha Vantage!'')])) ''apple'') =
     \<lparr>status = 200,
      body = JObj [(''symbol'', JNull),
                   (''message'', JStr ''Symbol search temporarily unavailable due to API limits''),
                   (''fallback'', JBool True)]\<rparr>"
  by code_simp

lemma search_symbol_respond_status:
  "search_symbol_respond ms chosen = Inr r \<Longrightarrow> status r = 200"
  by (auto simp: search_symbol_respond_def Let_def and_then_eq_Inr split: if_splits)

lemma search_symbol_try_status:
  "search_symbol_try companyName data = Inr r \<Longrightarrow> status r = 200"
  by (auto simp: search_symbol_try_def search_symbol_matches_def Let_def and_then_eq_Inr
      split: if_splits dest: search_symbol_respond_status)

text \<open>
  C2 (as amended). The symbol search of server.js always answers with status 200. A
  failed upstream call and an exception raised while the payload is processed give a body
  with \<open>symbol: null\<close>, a message, the error's message and \<open>fallback: true\<close>; a
  rate-limit marker gives \<open>symbol: null\<close>, a message and \<open>fallback: true\<close>. No match
  (the normalised name is no alias and neither \<^verbatim>\<open>constructor\<close> nor \<^verbatim>\<open>__proto__\<close>, and
  the payload lists no matches) gives a body with \<open>symbol: null\<close>, a message and a
  suggestion, and no \<open>fallback\<close> field.
\<close>

theorem search_symbol_always_200:
  "status (fst (search_symbol cfg axios companyName)) = 200 \<and>
   (\<forall>msg r. axios (search_symbol_request cfg companyName) = Rejected (AxiosError msg r) \<longrightarrow>
      body (fst (search_symbol cfg axios companyName)) =
        JObj [(''symbol'', JNull),
              (''message'', JStr ''Symbol search failed, but news search will still work''),
              (''error'', JStr msg),
              (''fallback'', JBool True)]) \<and>
   (\<forall>data e. axios (search_symbol_request cfg companyName) = Resolved data \<and>
      search_symbol_try companyName data = Inl e \<longrightarrow>
      (\<exists>msg. body (fst (search_symbol cfg axios companyName)) =
        JObj [(''symbol'', JNull),
              (''message'', JStr ''Symbol search failed, but news search will still work''),
              (''error'', JStr msg),
              (''fallback'', JBool True)])) \<and>
   (\<forall>data. axios (search_symbol_request cfg companyName) = Resolved data \<and>
      truthy (opt_prop data ''Note'') \<longrightarrow>
      body (fst (search_symbol cfg axios companyName)) =
        JObj [(''symbol'', JNull),
              (''message'', JStr ''Symbol search temporarily unavailable due to API limits''),
              (''fallback'', JBool True)]) \<and>
   (\<forall>data. axios (search_symbol_request cfg companyName) = Resolved data \<and>
      data \<noteq> JNull \<and> data \<noteq> JUndefined \<and> \<not> truthy (opt_prop data ''Note'') \<and>
      map_of commonCompanies (trim (toLowerCase companyName)) = None \<and>
      trim (toLowerCase companyName) \<noteq> ''constructor'' \<and>
      trim (toLowerCase companyName) \<noteq> ''__proto__'' \<and>
      (\<not> truthy (opt_prop data ''bestMatches'') \<or> opt_prop data ''bestMatches'' = JArr []) \<longrightarrow>
      body (fst (search_symbol cfg axios companyName)) =
        JObj [(''symbol'', JNull),
              (''message'',
                 JStr ''No matching stock symbol found. Company may be private or use different name.''),
              (''suggestion'',
                 JStr ''Try searching with the exact company legal name or stock ticker'')])"
proof (intro conjI allI impI)
  show "status (fst (search_symbol cfg axios companyName)) = 200"
    by (auto simp: search_symbol_def Let_def try_catch_def search_symbol_catch_def
        split: upstream.splits sum.splits dest: search_symbol_try_status)
next
  fix msg r
  assume "axios (search_symbol_request cfg companyName) = Rejected (AxiosError msg r)"
  then show "body (fst (search_symbol cfg axios companyName)) =
        JObj [(''symbol'', JNull),
              (''message'', JStr ''Symbol search failed, but news search will still work''),
              (''error'', JStr msg),
              (''fallback'', JBool True)]"
    by (simp add: search_symbol_def Let_def try_catch_def search_symbol_catch_def)
next
  fix data e
  assume "axios (search_symbol_request cfg companyName) = Resolved data \<and>
      search_symbol_try companyName data = Inl e"
  then show "\<exists>msg. body (fst (search_symbol cfg axios companyName)) =
        JObj [(''symbol'', JNull),
              (''message'', JStr ''Symbol search failed, but news search will still work''),
              (''error'', JStr msg),
              (''fallback'', JBool True)]"
    by (simp add: search_symbol_def Let_def try_catch_def search_symbol_catch_def)
next
  fix data
  assume a: "axios (search_symbol_request cfg companyName) = Resolved data \<and>
        truthy (opt_prop data ''Note'')"
  then have "get_prop data ''Note'' = Inr (opt_prop data ''Note'')"
    using truthy_opt_prop get_prop_opt by blast
  with a show "body (fst (search_symbol cfg axios companyName)) =
        JObj [(''symbol'', JNull),
              (''message'', JStr ''Symbol search temporarily unavailable due to API limits''),
              (''fallback'', JBool True)]"
    by (simp add: search_symbol_def Let_def try_catch_def search_symbol_try_def)
next
  fix data
  assume a: "axios (search_symbol_request cfg companyName) = Resolved data \<and>
      data \<noteq> JNull \<and> data \<noteq> JUndefined \<and> \<not> truthy (opt_prop data ''Note'') \<and>
      map_of commonCompanies (trim (toLowerCase companyName)) = None \<and>
      trim (toLowerCase companyName) \<noteq> ''constructor'' \<and>
      trim (toLowerCase companyName) \<noteq> ''__proto__'' \<and>
      (\<not> truthy (opt_prop data ''bestMatches'') \<or> opt_prop data ''bestMatches'' = JArr [])"
  then have g: "\<And>k. get_prop data k = Inr (opt_prop data k)"
    by (simp add: get_prop_opt)
  from a have m: "js_or (opt_prop data ''bestMatches'') (JArr []) = JArr []"
    by (auto simp: js_or_def)
  from a have n: "\<not> truthy (commonCompanies_get (trim (toLowerCase companyName)))"
    by (simp only: alias_lookup_falsy) simp
  from a n show "body (fst (search_symbol cfg axios companyName)) =
        JObj [(''symbol'', JNull),
              (''message'',
                 JStr ''No matching stock symbol found. Company may be private or use different name.''),
              (''suggestion'',
                 JStr ''Try searching with the exact company legal name or stock ticker'')]"
    by (simp add: search_symbol_def Let_def try_catch_def search_symbol_try_def g m
        search_symbol_matches_def search_symbol_respond_def)
qed

theorem search_symbol_always_200_witness:
  "status (fst (search_symbol sample_config
                  (\<lambda>rq. Rejected (AxiosError ''Network Error'' None)) ''Tesla'')) = 200 \<and>
   body (fst (search_symbol sample_config
                (\<lambda>rq. Rejected (AxiosError ''Network Error'' None)) ''Tesla'')) =
     JObj [(''symbol'', JNull),
           (''message'', JStr ''Symbol search failed, but news search will still work''),
           (''error'', JStr ''Network Error''),
           (''fallback'', JBool True)] \<and>
   body (fst (search_symbol sample_config
                (\<lambda>rq. Resolved (JObj [(''bestMatches'', JArr [])])) ''Nonexistent Widgets'')) =
     JObj [(''symbol'', JNull),
           (''message'',
              JStr ''No matching stock symbol found. Company may be private or use different name.''),
           (''suggestion'',
              JStr ''Try searching with the exact company legal name or stock ticker'')]"
proof -
  have k: "map_of commonCompanies (trim (toLowerCase ''Nonexistent Widgets'')) = None"
    "trim (toLowerCase ''Nonexistent Widgets'') \<noteq> ''constructor''"
    "trim (toLowerCase ''Nonexistent Widgets'') \<noteq> ''__proto__''"
    by code_simp+
  have 1: "status (fst (search_symbol sample_config
                  (\<lambda>rq. Rejected (AxiosError ''Network Error'' None)) ''Tesla'')) = 200 \<and>
     body (fst (search_symbol sample_config
                (\<lambda>rq. Rejected (AxiosError ''Network Error'' None)) ''Tesla'')) =
     JObj [(''symbol'', JNull),
           (''message'', JStr ''Symbol search failed, but news search will still work''),
           (''error'', JStr ''Network Error''),
           (''fallback'', JBool True)]"
    using search_symbol_always_200
      [where cfg = sample_config and companyName = "''Tesla''"
         and axios = "\<lambda>rq. Rejected (AxiosError ''Network Error'' None)"]
    by simp
  have 2: "body (fst (search_symbol sample_config
                (\<lambda>rq. Resolved (JObj [(''bestMatches'', JArr [])])) ''Nonexistent Widgets'')) =
     JObj [(''symbol'', JNull),
           (''message'',
              JStr ''No matching stock symbol found. Company may be private or use different name.''),
           (''suggestion'',
              JStr ''Try searching with the exact company legal name or stock ticker'')]"
    using search_symbol_always_200
      [where cfg = sample_config and companyName = "''Nonexistent Widgets''"
         and axios = "\<lambda>rq. Resolved (JObj [(''bestMatches'', JArr [])])"] k
    by (simp add: opt_prop_def)
  from 1 2 show ?thesis by blast
qed

text \<open>No match is answered without a \<open>fallback\<close> field.\<close>

theorem search_symbol_no_match_without_fallback:
  "fst (search_symbol sample_config
          (\<lambda>rq. Resolved (JObj [(''bestMatches'', JArr [])])) ''Nonexistent Widgets'') =
     \<lparr>status = 200,
      body = JObj [(''symbol'', JNull),
                   (''message'',
                      JStr ''No matching stock symbol found. Company may be private or use different name.''),
                   (''suggestion'',
                      JStr ''Try searching with the exact company legal name or stock ticker'')]\<rparr> \<and>
   opt_prop (body (fst (search_symbol sample_config
          (\<lambda>rq. Resolved (JObj [(''bestMatches'', JArr [])])) ''Nonexistent Widgets''))) ''fallback''
     = JUndefined \<and>
   opt_prop (body (fst (search_symbol sample_config
          (\<lambda>rq. Resolved (JObj [(''bestMatches'', JArr [])])) ''Nonexistent Widgets''))) ''fallback''
     \<noteq> JBool True"
  by code_simp

subsection \<open>The loop that chooses the match\<close>











lemma match_fields_symbol_match:
  "match_fields (symbol_match s n t r c) = Inr (toLowerCase n, JStr r, JStr t)"
  by (simp add: symbol_match_def match_fields_def js_or_def)







subsection \<open>The tie-break scenario\<close>

lemma apple_scenario_fields:
  "match_fields (symbol_match s1 ''Apple Hospitality REIT'' ''Equity'' ''United States'' c1)
     = Inr (''apple hospitality reit'', JStr ''United States'', JStr ''Equity'')"
  "match_fields (symbol_match s2 ''Apple Inc'' ''Equity Common Stock'' ''United States'' c2)
     = Inr (''apple inc'', JStr ''United States'', JStr ''Equity Common Stock'')"
proof -
  have l: "toLowerCase ''Apple Hospitality REIT'' = ''apple hospitality reit''"
    "toLowerCase ''Apple Inc'' = ''apple inc''"
    by code_simp+
  show "match_fields (symbol_match s1 ''Apple Hospitality REIT'' ''Equity'' ''United States'' c1)
     = Inr (''apple hospitality reit'', JStr ''United States'', JStr ''Equity'')"
    by (simp only: match_fields_symbol_match l)
  show "match_fields (symbol_match s2 ''Apple Inc'' ''Equity Common Stock'' ''United States'' c2)
     = Inr (''apple inc'', JStr ''United States'', JStr ''Equity Common Stock'')"
    by (simp only: match_fields_symbol_match l)
qed

lemma apple_scenario_loop:
  "topMatch_loop ''apple'' JNull
     [symbol_match s1 ''Apple Hospitality REIT'' ''Equity'' ''United States'' c1,
      symbol_match s2 ''Apple Inc'' ''Equity Common Stock'' ''United States'' c2]
     = Inr (symbol_match s2 ''Apple Inc'' ''Equity Common Stock'' ''United States'' c2)"
proof -
  have q1: "qualifies ''apple'' (''apple hospitality reit'', JStr ''United States'', JStr ''Equity'')
              = Inr True"
    by code_simp
  have q2: "qualifies ''apple'' (''apple inc'', JStr ''United States'', JStr ''Equity Common Stock'')
              = Inr True"
    by code_simp
  have i1: "\<not> str_includes ''apple hospitality reit'' ''apple inc''"
    by code_simp
  have i2: "str_includes ''apple inc'' ''apple inc''"
    by code_simp
  show ?thesis
    by (simp add: apple_scenario_fields q1 q2 i1 i2 del: str_includes.simps)
qed

text \<open>
  C7 (as amended, for src/server.js). On the two matches of the scenario (Apple
  Hospitality REIT, an Equity of the United States, then Apple Inc, an Equity Common Stock
  of the United States), the selection loop of server.js run with the key \<open>apple\<close>
  chooses the Apple Inc match, and the response built from the chosen match carries its
  symbol, name, type, region and currency with source \<open>api_search\<close>: with the three
  fields the scenario gives, and with all five fields given as strings. The handler,
  though, answers every name that normalises to \<open>apple\<close> from its alias table before it
  reaches the loop: symbol AAPL, the name as given, type Equity, region United States,
  currency USD, source \<open>direct_match\<close>, whatever the matches are.
\<close>

theorem apple_tie_break:
  "topMatch_loop ''apple'' JNull [apple_reit, apple_inc] = Inr apple_inc \<and>
   search_symbol_matches ''apple'' (JArr [apple_reit, apple_inc]) =
     Inr \<lparr>status = 200,
          body = JObj [(''symbol'', JUndefined),
                       (''name'', JStr ''Apple Inc''),
                       (''type'', JStr ''Equity Common Stock''),
                       (''region'', JStr ''United States''),
                       (''currency'', JUndefined),
                       (''source'', JStr ''api_search'')]\<rparr> \<and>
   (\<forall>s1 c1 s2 c2.
      topMatch_loop ''apple'' JNull
        [symbol_match s1 ''Apple Hospitality REIT'' ''Equity'' ''United States'' c1,
         symbol_match s2 ''Apple Inc'' ''Equity Common Stock'' ''United States'' c2]
        = Inr (symbol_match s2 ''Apple Inc'' ''Equity Common Stock'' ''United States'' c2) \<and>
      search_symbol_matches ''apple''
        (JArr [symbol_match s1 ''Apple Hospitality REIT'' ''Equity'' ''United States'' c1,
               symbol_match s2 ''Apple Inc'' ''Equity Common Stock'' ''United States'' c2]) =
        Inr \<lparr>status = 200,
             body = JObj [(''symbol'', JStr s2),
                          (''name'', JStr ''Apple Inc''),
                          (''type'', JStr ''Equity Common Stock''),
                          (''region'', JStr ''United States''),
                          (''currency'', JStr c2),
                          (''source'', JStr ''api_search'')]\<rparr>) \<and>
   (\<forall>cfg axios companyName data.
      trim (toLowerCase companyName) = ''apple'' \<and>
      axios (search_symbol_request cfg companyName) = Resolved data \<and>
      data \<noteq> JNull \<and> data \<noteq> JUndefined \<and> \<not> truthy (opt_prop data ''Note'') \<longrightarrow>
      fst (search_symbol cfg axios companyName) =
        \<lparr>status = 200,
         body = JObj [(''symbol'', JStr ''AAPL''),
                      (''name'', JStr companyName),
                      (''type'', JStr ''Equity''),
                      (''region'', JStr ''United States''),
                      (''currency'', JStr ''USD''),
                      (''source'', JStr ''direct_match'')]\<rparr>)"
proof (intro conjI allI impI)
  show "topMatch_loop ''apple'' JNull [apple_reit, apple_inc] = Inr apple_inc"
    by code_simp
  show "search_symbol_matches ''apple'' (JArr [apple_reit, apple_inc]) =
     Inr \<lparr>status = 200,
          body = JObj [(''symbol'', JUndefined),
                       (''name'', JStr ''Apple Inc''),
                       (''type'', JStr ''Equity Common Stock''),
                       (''region'', JStr ''United States''),
                       (''currency'', JUndefined),
                       (''source'', JStr ''api_search'')]\<rparr>"
    by code_simp
next
  fix s1 c1 s2 c2
  show "topMatch_loop ''apple'' JNull
        [symbol_match s1 ''Apple Hospitality REIT'' ''Equity'' ''United States'' c1,
         symbol_match s2 ''Apple Inc'' ''Equity Common Stock'' ''United States'' c2]
        = Inr (symbol_match s2 ''Apple Inc'' ''Equity Common Stock'' ''United States'' c2)"
    by (rule apple_scenario_loop)
  have "search_symbol_matches ''apple''
        (JArr [symbol_match s1 ''Apple Hospitality REIT'' ''Equity'' ''United States'' c1,
               symbol_match s2 ''Apple Inc'' ''Equity Common Stock'' ''United States'' c2]) =
      search_symbol_respond
        [symbol_match s1 ''Apple Hospitality REIT'' ''Equity'' ''United States'' c1,
         symbol_match s2 ''Apple Inc'' ''Equity Common Stock'' ''United States'' c2]
        (symbol_match s2 ''Apple Inc'' ''Equity Common Stock'' ''United States'' c2)"
    by (simp only: search_symbol_matches_def js_iterate.simps and_then_Inr apple_scenario_loop)
  also have "\<dots> = Inr \<lparr>status = 200,
             body = JObj [(''symbol'', JStr s2),
                          (''name'', JStr ''Apple Inc''),
                          (''type'', JStr ''Equity Common Stock''),
                          (''region'', JStr ''United States''),
                          (''currency'', JStr c2),
                          (''source'', JStr ''api_search'')]\<rparr>"
    by (simp add: search_symbol_respond_def symbol_match_def)
  finally show "search_symbol_matches ''apple''
        (JArr [symbol_match s1 ''Apple Hospitality REIT'' ''Equity'' ''United States'' c1,
               symbol_match s2 ''Apple Inc'' ''Equity Common Stock'' ''United States'' c2]) =
        Inr \<lparr>status = 200,
             body = JObj [(''symbol'', JStr s2),
                          (''name'', JStr ''Apple Inc''),
                          (''type'', JStr ''Equity Common Stock''),
                          (''region'', JStr ''United States''),
                          (''currency'', JStr c2),
                          (''source'', JStr ''api_search'')]\<rparr>" .
next
  fix cfg axios companyName data
  assume a: "trim (toLowerCase companyName) = ''apple'' \<and>
      axios (search_symbol_request cfg companyName) = Resolved data \<and>
      data \<noteq> JNull \<and> data \<noteq> JUndefined \<and> \<not> truthy (opt_prop data ''Note'')"
  then have g: "\<And>k. get_prop data k = Inr (opt_prop data k)"
    by (simp add: get_prop_opt)
  have "map_of commonCompanies ''apple'' = Some ''AAPL''"
    by (simp add: commonCompanies_def)
  from commonCompanies_get_alias [OF this]
  have s: "commonCompanies_get ''apple'' = JStr ''AAPL''" by simp
  from a have k: "trim (toLowerCase companyName) = ''apple''" by simp
  from a show "fst (search_symbol cfg axios companyName) =
        \<lparr>status = 200,
         body = JObj [(''symbol'', JStr ''AAPL''),
                      (''name'', JStr companyName),
                      (''type'', JStr ''Equity''),
                      (''region'', JStr ''United States''),
                      (''currency'', JStr ''USD''),
                      (''source'', JStr ''direct_match'')]\<rparr>"
    by (simp add: search_symbol_def Let_def try_catch_def search_symbol_try_def g k s)
qed

theorem apple_tie_break_witness:
  "search_symbol_matches ''apple''
     (JArr [symbol_match ''APLE'' ''Apple Hospitality REIT'' ''Equity'' ''United States'' ''USD'',
            symbol_match ''AAPL'' ''Apple Inc'' ''Equity Common Stock'' ''United States'' ''USD'']) =
     Inr \<lparr>status = 200,
          body = JObj [(''symbol'', JStr ''AAPL''),
                       (''name'', JStr ''Apple Inc''),
                       (''type'', JStr ''Equity Common Stock''),
                       (''region'', JStr ''United States''),
                       (''currency'', JStr ''USD''),
                       (''source'', JStr ''api_search'')]\<rparr> \<and>
   fst (search_symbol sample_config
          (\<lambda>rq. Resolved (JObj [(''bestMatches'',
             JArr [symbol_match ''APLE'' ''Apple Hospitality REIT'' ''Equity'' ''United States'' ''USD'',
                   symbol_match ''AAPL'' ''Apple Inc'' ''Equity Common Stock'' ''United States'' ''USD''])]))
          ''Apple'') =
     \<lparr>status = 200,
      body = JObj [(''symbol'', JStr ''AAPL''),
                   (''name'', JStr ''Apple''),
                   (''type'', JStr ''Equity''),
                   (''region'', JStr ''United States''),
                   (''currency'', JStr ''USD''),
                   (''source'', JStr ''direct_match'')]\<rparr>"
proof -
  let ?data = "JObj [(''bestMatches'',
             JArr [symbol_match ''APLE'' ''Apple Hospitality REIT'' ''Equity'' ''United States'' ''USD'',
                   symbol_match ''AAPL'' ''Apple Inc'' ''Equity Common Stock'' ''United States'' ''USD''])]"
  have k: "trim (toLowerCase ''Apple'') = ''apple''" by code_simp
  have h: "trim (toLowerCase ''Apple'') = ''apple'' \<and>
      (\<lambda>rq. Resolved ?data) (search_symbol_request sample_config ''Apple'') = Resolved ?data \<and>
      ?data \<noteq> JNull \<and> ?data \<noteq> JUndefined \<and> \<not> truthy (opt_prop ?data ''Note'')"
    using k by (simp add: opt_prop_def)
  note t = apple_tie_break
  have 1: "fst (search_symbol sample_config (\<lambda>rq. Resolved ?data) ''Apple'') =
     \<lparr>status = 200,
      body = JObj [(''symbol'', JStr ''AAPL''),
                   (''name'', JStr ''Apple''),
                   (''type'', JStr ''Equity''),
                   (''region'', JStr ''United States''),
                   (''currency'', JStr ''USD''),
                   (''source'', JStr ''direct_match'')]\<rparr>"
    using h
    by (rule t [THEN conjunct2, THEN conjunct2, THEN conjunct2, rule_format,
          where axios = "\<lambda>rq. Resolved ?data"])
  from t [THEN conjunct2, THEN conjunct2, THEN conjunct1, rule_format,
      of "''APLE''" "''USD''" "''AAPL''" "''USD''"] 1
  show ?thesis by (intro conjI) simp_all
qed

text \<open>
  On the scenario itself the resolver does not return the Apple Inc match: the handler of
  server.js answers the name \<open>apple\<close> from the alias table, with that name and no
  field of a match, and the handler of nodejs-backend.js answers with Apple Hospitality
  REIT.
\<close>

theorem apple_scenario_answers:
  "fst (search_symbol sample_config
          (\<lambda>rq. Resolved (JObj [(''bestMatches'', JArr [apple_reit, apple_inc])])) ''apple'') =
     \<lparr>status = 200,
      body = JObj [(''symbol'', JStr ''AAPL''),
                   (''name'', JStr ''apple''),
                   (''type'', JStr ''Equity''),
                   (''region'', JStr ''United States''),
                   (''currency'', JStr ''USD''),
                   (''source'', JStr ''direct_match'')]\<rparr> \<and>
   fst (nb_search_symbol sample_config
          (\<lambda>rq. Resolved (JObj [(''bestMatches'', JArr [apple_reit, apple_inc])])) ''apple'') =
     \<lparr>status = 200,
      body = JObj [(''symbol'', JUndefined),
                   (''name'', JStr ''Apple Hospitality REIT''),
                   (''type'', JStr ''Equity''),
                   (''region'', JStr ''United States''),
                   (''currency'', JUndefined)]\<rparr> \<and>
   opt_prop (body (fst (search_symbol sample_config
          (\<lambda>rq. Resolved (JObj [(''bestMatches'', JArr [apple_reit, apple_inc])])) ''apple'')))
     ''name'' \<noteq> JStr ''Apple Inc'' \<and>
   opt_prop (body (fst (nb_search_symbol sample_config
          (\<lambda>rq. Resolved (JObj [(''bestMatches'', JArr [apple_reit, apple_inc])])) ''apple'')))
     ''name'' \<noteq> JStr ''Apple Inc''"
  by code_simp

subsection \<open>The two files\<close>

lemma nb_company_news_eq:
  "nb_company_news cfg axios now companyName = company_news cfg axios now companyName"
proof -
  have "nb_company_news_try now companyName = company_news_try now companyName"
    by (rule ext) (simp add: nb_company_news_try_def company_news_try_def)
  moreover have "nb_company_news_catch = company_news_catch"
    by (rule ext) (simp add: nb_company_news_catch_def company_news_catch_def)
  ultimately show ?thesis
    by (simp add: nb_company_news_def company_news_def
        nb_company_news_request_def company_news_request_def)
qed

lemma nb_company_info_eq:
  "nb_company_info cfg axios symbol = company_info cfg axios symbol"
proof -
  have "nb_company_info_try symbol = company_info_try symbol"
    by (rule ext) (simp add: nb_company_info_try_def company_info_try_def)
  moreover have "nb_company_info_catch = company_info_catch"
    by (rule ext) (simp add: nb_company_info_catch_def company_info_catch_def)
  ultimately show ?thesis
    by (simp add: nb_company_info_def company_info_def
        nb_company_info_request_def company_info_request_def)
qed

lemma search_symbol_requests_eq:
  "nb_search_symbol_request cfg companyName = search_symbol_request cfg companyName"
  by (simp add: nb_search_symbol_request_def search_symbol_request_def)

lemma search_symbol_catches_eq: "nb_search_symbol_catch e = search_symbol_catch e"
  by (simp add: nb_search_symbol_catch_def search_symbol_catch_def)

lemma search_symbol_eq_if_try_eq:
  assumes "axios (search_symbol_request cfg companyName) = Resolved data"
    and "nb_search_symbol_try companyName data = search_symbol_try companyName data"
  shows "nb_search_symbol cfg axios companyName = search_symbol cfg axios companyName"
  using assms
  by (simp add: nb_search_symbol_def search_symbol_def search_symbol_requests_eq Let_def
      try_catch_def search_symbol_catches_eq split: sum.splits)

text \<open>
  C9 (as amended). The news handlers of the two files answer alike on every input and
  upstream outcome, and so do the company-info handlers. The symbol-search handlers send
  the same request, and answer alike when the upstream call fails, when the payload is
  \<open>null\<close>, when it has a rate-limit marker, and when there is no match: the normalised
  name is no alias and neither \<^verbatim>\<open>constructor\<close> nor \<^verbatim>\<open>__proto__\<close> (which the table of
  server.js, being an object, also answers), and the payload lists no matches.
\<close>

theorem handlers_agree:
  "nb_company_news cfg axios now companyName = company_news cfg axios now companyName \<and>
   nb_company_info cfg axios symbol = company_info cfg axios symbol \<and>
   snd (nb_search_symbol cfg axios companyName) = snd (search_symbol cfg axios companyName) \<and>
   (\<forall>e. axios (search_symbol_request cfg companyName) = Rejected e \<longrightarrow>
      nb_search_symbol cfg axios companyName = search_symbol cfg axios companyName) \<and>
   (\<forall>data. axios (search_symbol_request cfg companyName) = Resolved data \<and>
      (data = JNull \<or> data = JUndefined \<or> truthy (opt_prop data ''Note'')) \<longrightarrow>
      nb_search_symbol cfg axios companyName = search_symbol cfg axios companyName) \<and>
   (\<forall>data. axios (search_symbol_request cfg companyName) = Resolved data \<and>
      map_of commonCompanies (trim (toLowerCase companyName)) = None \<and>
      trim (toLowerCase companyName) \<noteq> ''constructor'' \<and>
      trim (toLowerCase companyName) \<noteq> ''__proto__'' \<and>
      (\<not> truthy (opt_prop data ''bestMatches'') \<or> opt_prop data ''bestMatches'' = JArr []) \<longrightarrow>
      nb_search_symbol cfg axios companyName = search_symbol cfg axios companyName)"
proof (intro conjI allI impI)
  show "nb_company_news cfg axios now companyName = company_news cfg axios now companyName"
    by (rule nb_company_news_eq)
  show "nb_company_info cfg axios symbol = company_info cfg axios symbol"
    by (rule nb_company_info_eq)
  show "snd (nb_search_symbol cfg axios companyName) = snd (search_symbol cfg axios companyName)"
    by (simp add: nb_search_symbol_def search_symbol_def search_symbol_requests_eq Let_def)
next
  fix e
  assume "axios (search_symbol_request cfg companyName) = Rejected e"
  then show "nb_search_symbol cfg axios companyName = search_symbol cfg axios companyName"
    by (simp add: nb_search_symbol_def search_symbol_def search_symbol_requests_eq Let_def
        try_catch_def search_symbol_catches_eq)
next
  fix data
  assume a: "axios (search_symbol_request cfg companyName) = Resolved data \<and>
      (data = JNull \<or> data = JUndefined \<or> truthy (opt_prop data ''Note''))"
  have "nb_search_symbol_try companyName data = search_symbol_try companyName data"
  proof (cases "data = JNull \<or> data = JUndefined")
    case True
    then show ?thesis
      by (auto simp: nb_search_symbol_try_def search_symbol_try_def)
  next
    case False
    with a have "truthy (opt_prop data ''Note'')" by simp
    moreover from False have "get_prop data ''Note'' = Inr (opt_prop data ''Note'')"
      by (simp add: get_prop_opt)
    ultimately show ?thesis
      by (simp add: nb_search_symbol_try_def search_symbol_try_def)
  qed
  with a show "nb_search_symbol cfg axios companyName = search_symbol cfg axios companyName"
    by (simp add: search_symbol_eq_if_try_eq)
next
  fix data
  assume a: "axios (search_symbol_request cfg companyName) = Resolved data \<and>
      map_of commonCompanies (trim (toLowerCase companyName)) = None \<and>
      trim (toLowerCase companyName) \<noteq> ''constructor'' \<and>
      trim (toLowerCase companyName) \<noteq> ''__proto__'' \<and>
      (\<not> truthy (opt_prop data ''bestMatches'') \<or> opt_prop data ''bestMatches'' = JArr [])"
  then have m: "js_or (opt_prop data ''bestMatches'') (JArr []) = JArr []"
    by (auto simp: js_or_def)
  have n: "\<not> truthy (commonCompanies_get (trim (toLowerCase companyName)))"
    by (subst alias_lookup_falsy) (use a in simp)
  have "nb_search_symbol_try companyName data = search_symbol_try companyName data"
  proof (cases "data = JNull \<or> data = JUndefined")
    case True
    then show ?thesis
      by (auto simp: nb_search_symbol_try_def search_symbol_try_def)
  next
    case False
    then have g: "\<And>k. get_prop data k = Inr (opt_prop data k)"
      by (simp add: get_prop_opt)
    from n show ?thesis
      by (simp add: nb_search_symbol_try_def search_symbol_try_def g m Let_def
          search_symbol_matches_def search_symbol_respond_def nb_search_symbol_respond_def)
  qed
  with a show "nb_search_symbol cfg axios companyName = search_symbol cfg axios companyName"
    by (simp add: search_symbol_eq_if_try_eq)
qed

theorem handlers_agree_witness:
  "nb_company_news sample_config (\<lambda>rq. Resolved (JObj [(''articles'', JArr [sample_article])]))
     sample_now ''Apple'' =
   company_news sample_config (\<lambda>rq. Resolved (JObj [(''articles'', JArr [sample_article])]))
     sample_now ''Apple'' \<and>
   nb_search_symbol sample_config (\<lambda>rq. Rejected (AxiosError ''Network Error'' None)) ''Tesla'' =
   search_symbol sample_config (\<lambda>rq. Rejected (AxiosError ''Network Error'' None)) ''Tesla'' \<and>
   nb_search_symbol sample_config (\<lambda>rq. Resolved (JObj [(''bestMatches'', JArr [])]))
     ''Nonexistent Widgets'' =
   search_symbol sample_config (\<lambda>rq. Resolved (JObj [(''bestMatches'', JArr [])]))
     ''Nonexistent Widgets''"
proof -
  have k: "map_of commonCompanies (trim (toLowerCase ''Nonexistent Widgets'')) = None"
    "trim (toLowerCase ''Nonexistent Widgets'') \<noteq> ''constructor''"
    "trim (toLowerCase ''Nonexistent Widgets'') \<noteq> ''__proto__''"
    by code_simp+
  have 1: "nb_company_news sample_config
       (\<lambda>rq. Resolved (JObj [(''articles'', JArr [sample_article])])) sample_now ''Apple'' =
     company_news sample_config
       (\<lambda>rq. Resolved (JObj [(''articles'', JArr [sample_article])])) sample_now ''Apple''"
    using handlers_agree
      [where cfg = sample_config and companyName = "''Apple''" and now = sample_now
         and axios = "\<lambda>rq. Resolved (JObj [(''articles'', JArr [sample_article])])"]
    by simp
  have 2: "nb_search_symbol sample_config
       (\<lambda>rq. Rejected (AxiosError ''Network Error'' None)) ''Tesla'' =
     search_symbol sample_config (\<lambda>rq. Rejected (AxiosError ''Network Error'' None)) ''Tesla''"
    using handlers_agree
      [where cfg = sample_config and companyName = "''Tesla''"
         and axios = "\<lambda>rq. Rejected (AxiosError ''Network Error'' None)"]
    by simp
  have 3: "nb_search_symbol sample_config (\<lambda>rq. Resolved (JObj [(''bestMatches'', JArr [])]))
       ''Nonexistent Widgets'' =
     search_symbol sample_config (\<lambda>rq. Resolved (JObj [(''bestMatches'', JArr [])]))
       ''Nonexistent Widgets''"
    using handlers_agree
      [where cfg = sample_config and companyName = "''Nonexistent Widgets''"
         and axios = "\<lambda>rq. Resolved (JObj [(''bestMatches'', JArr [])])"] k
    by (simp add: opt_prop_def)
  from 1 2 3 show ?thesis by (intro conjI)
qed

text \<open>
  The symbol-search handlers differ. On the name \<open>Tesla\<close> with one match, server.js
  answers from its alias table and nodejs-backend.js from the match, without a
  \<open>source\<close> field. On the name \<open>constructor\<close> with no match, server.js answers
  \<open>direct_match\<close> with the function it finds under that name as the symbol, and
  nodejs-backend.js answers that there is no match.
\<close>

theorem search_symbol_handlers_differ:
  "fst (search_symbol sample_config
          (\<lambda>rq. Resolved (JObj [(''bestMatches'',
             JArr [symbol_match ''TSLA'' ''Tesla Inc'' ''Equity'' ''United States'' ''USD''])]))
          ''Tesla'') =
     \<lparr>status = 200,
      body = JObj [(''symbol'', JStr ''TSLA''),
                   (''name'', JStr ''Tesla''),
                   (''type'', JStr ''Equity''),
                   (''region'', JStr ''United States''),
                   (''currency'', JStr ''USD''),
                   (''source'', JStr ''direct_match'')]\<rparr> \<and>
   fst (nb_search_symbol sample_config
          (\<lambda>rq. Resolved (JObj [(''bestMatches'',
             JArr [symbol_match ''TSLA'' ''Tesla Inc'' ''Equity'' ''United States'' ''USD''])]))
          ''Tesla'') =
     \<lparr>status = 200,
      body = JObj [(''symbol'', JStr ''TSLA''),
                   (''name'', JStr ''Tesla Inc''),
                   (''type'', JStr ''Equity''),
                   (''region'', JStr ''United States''),
                   (''currency'', JStr ''USD'')]\<rparr> \<and>
   fst (search_symbol sample_config
          (\<lambda>rq. Resolved (JObj [(''bestMatches'', JArr [])])) ''constructor'') =
     \<lparr>status = 200,
      body = JObj [(''symbol'', JFun ''Object''),
                   (''name'', JStr ''constructor''),
                   (''type'', JStr ''Equity''),
                   (''region'', JStr ''United States''),
                   (''currency'', JStr ''USD''),
                   (''source'', JStr ''direct_match'')]\<rparr> \<and>
   fst (nb_search_symbol sample_config
          (\<lambda>rq. Resolved (JObj [(''bestMatches'', JArr [])])) ''constructor'') =
     \<lparr>status = 200,
      body = JObj [(''symbol'', JNull),
                   (''message'',
                      JStr ''No matching stock symbol found. Company may be private or use different name.''),
                   (''suggestion'',
                      JStr ''Try searching with the exact company legal name or stock ticker'')]\<rparr>"
  by code_simp

end
